theory Spec2Isabelle
  imports Complex_Main "HOL-Library.Sublist" "HOL-Library.Product_Lexorder" "HOL-Library.AList"
begin

section \<open>Text helpers\<close>

text \<open>
  Python text is modelled as \<^typ>\<open>string\<close>, a list of 8-bit characters: the bytes of
  its UTF-8 encoding. A character starts at every byte that is not a continuation byte;
  \<open>py_len\<close> counts the characters and \<open>take_chars n\<close> is the slice \<^verbatim>\<open>[:n]\<close>. The
  helpers below are the methods of \<^verbatim>\<open>str\<close> that the modelled functions call.
\<close>

definition is_cont :: "char \<Rightarrow> bool" where
  "is_cont c = (128 \<le> (of_char c :: nat) \<and> (of_char c :: nat) < 192)"

definition py_len :: "string \<Rightarrow> nat" where
  \<comment> \<open>\<^verbatim>\<open>len(s)\<close>\<close>
  "py_len s = length (filter (\<lambda>c. \<not> is_cont c) s)"

fun take_chars :: "nat \<Rightarrow> string \<Rightarrow> string" where
  "take_chars n [] = []"
| "take_chars n (c # cs) =
     (if is_cont c then c # take_chars n cs
      else case n of 0 \<Rightarrow> [] | Suc m \<Rightarrow> c # take_chars m cs)"

definition lower_char :: "char \<Rightarrow> char" where
  "lower_char c =
     (let n = (of_char c :: nat) in if 65 \<le> n \<and> n \<le> 90 then char_of (n + 32) else c)"

definition lower :: "string \<Rightarrow> string" where
  \<comment> \<open>\<^verbatim>\<open>str.lower()\<close> on the letters A to Z\<close>
  "lower s = map lower_char s"

section \<open>security_config.py: the rate-limit bucket\<close>

text \<open>
  \<^verbatim>\<open>_RateLimitBucket\<close>. The readings of \<^verbatim>\<open>time.time()\<close> are Python floats;
  they are modelled as real numbers of seconds, and the reading taken by a call is the
  call's first argument. The lock only serialises callers and has no counterpart here.
\<close>

record bucket =
  max_count :: int
  window_seconds :: real
  timestamps :: "real list"

definition RateLimitBucket :: "int \<Rightarrow> real \<Rightarrow> bucket" where
  "RateLimitBucket m w = \<lparr>max_count = m, window_seconds = w, timestamps = []\<rparr>"

definition allow :: "real \<Rightarrow> bucket \<Rightarrow> bool \<times> bucket" where
  "allow now b =
     (let cutoff = now - window_seconds b;
          b1 = b\<lparr>timestamps := filter (\<lambda>t. t > cutoff) (timestamps b)\<rparr>
      in if int (length (timestamps b1)) \<ge> max_count b1 then (False, b1)
         else (True, b1\<lparr>timestamps := timestamps b1 @ [now]\<rparr>))"

text \<open>Successive calls of \<^verbatim>\<open>allow()\<close> on one bucket, at the given clock readings.\<close>

fun allow_calls :: "real list \<Rightarrow> bucket \<Rightarrow> bool list \<times> bucket" where
  "allow_calls [] b = ([], b)"
| "allow_calls (t # ts) b =
     (case allow t b of (r, b1) \<Rightarrow>
        (case allow_calls ts b1 of (rs, b2) \<Rightarrow> (r # rs, b2)))"

section \<open>The DRY_RUN variable\<close>

text \<open>
  The process environment after \<^verbatim>\<open>load_dotenv()\<close> is a map from names to values;
  \<^verbatim>\<open>os.getenv(name, default)\<close> reads it.
\<close>

type_synonym environ = "string \<rightharpoonup> string"

definition getenv :: "environ \<Rightarrow> string \<Rightarrow> string \<Rightarrow> string" where
  "getenv env name dflt = (case env name of None \<Rightarrow> dflt | Some v \<Rightarrow> v)"

text \<open>
  The exceptions that the modelled code raises or catches. \<open>OSError\<close> stands for any
  \<^verbatim>\<open>OSError\<close> other than \<^verbatim>\<open>FileNotFoundError\<close>, which is a subclass of it.
\<close>

datatype py_error = ValueError | IndexError | OSError | FileNotFoundError | TimeoutExpired

definition is_OSError :: "py_error \<Rightarrow> bool" where
  "is_OSError e = (e = OSError \<or> e = FileNotFoundError)"

text \<open>
  \<^verbatim>\<open>Orchestrator.from_env\<close>: the vault path and the dry-run flag handed to the
  constructor, or \<^verbatim>\<open>ValueError\<close> when \<^verbatim>\<open>VAULT_PATH\<close> is unset or empty.
\<close>

definition from_env :: "environ \<Rightarrow> py_error + string \<times> bool" where
  "from_env env =
     (let vault_path = env ''VAULT_PATH'';
          dry_run = (lower (getenv env ''DRY_RUN'' ''true'') = ''true'')
      in case vault_path of
           None \<Rightarrow> Inl ValueError
         | Some p \<Rightarrow> if p = [] then Inl ValueError else Inr (p, dry_run))"

text \<open>The \<^verbatim>\<open>dry_run\<close> attribute set by \<^verbatim>\<open>SecurityConfig.__init__\<close>.\<close>

definition security_dry_run :: "environ \<Rightarrow> bool" where
  "security_dry_run env = (lower (getenv env ''DRY_RUN'' ''true'') \<noteq> ''false'')"


section \<open>The vault\<close>

text \<open>
  A path is the list of its components below the vault root. The vault holds text files
  and directories; \<open>denies\<close> tells for which paths a write, an append or a removal
  fails, and why: a missing directory raises \<^verbatim>\<open>FileNotFoundError\<close>, a read-only
  one or a full disk another \<^verbatim>\<open>OSError\<close>; and \<open>unreadable\<close> tells for which
  paths a read fails (no permission, or bytes that are not UTF-8). \<open>journal\<close> records
  the file operations the program itself performs, in order. The external agent is
  \<open>agent\<close>: its \<open>n\<close>-th run, given the prompt and the files, yields what
  \<^verbatim>\<open>subprocess.run\<close> returns or raises, and the files it leaves; \<open>spawned\<close>
  counts the runs made. \<open>clock\<close> and \<open>epoch\<close> are the successive readings of
  \<^verbatim>\<open>datetime.now(timezone.utc)\<close> and \<^verbatim>\<open>time.time()\<close>, \<open>ticks\<close> the number of
  readings taken. Floating-point arithmetic is not modelled: \<open>elapsed a b\<close> is the text
  that \<^verbatim>\<open>str\<close> gives for the float \<^verbatim>\<open>round(b - a, 1)\<close>. \<open>stop_signal k\<close> tells
  whether SIGINT or SIGTERM has arrived before the \<open>k\<close>-th look at the \<^verbatim>\<open>_running\<close>
  flag.
\<close>

type_synonym path = "string list"

datatype fs_event = Write path string | Append path string | Unlink path

datatype refusal = NoSuchDirectory | NotPermitted

fun raised :: "refusal \<Rightarrow> py_error" where
  "raised NoSuchDirectory = FileNotFoundError"
| "raised NotPermitted = OSError"

record completed =
  returncode :: int
  stdout :: string
  stderr :: string

record datetime =
  year :: nat
  month :: nat
  day :: nat
  hour :: nat
  minute :: nat
  second :: nat
  microsecond :: nat

record world =
  files :: "(path \<times> string) list"
  dirs :: "path list"
  denies :: "path \<Rightarrow> refusal option"
  unreadable :: "path \<Rightarrow> bool"
  journal :: "fs_event list"
  agent :: "nat \<Rightarrow> string \<Rightarrow> (path \<times> string) list
              \<Rightarrow> (py_error + completed) \<times> (path \<times> string) list"
  spawned :: nat
  clock :: "nat \<Rightarrow> datetime"
  epoch :: "nat \<Rightarrow> real"
  elapsed :: "real \<Rightarrow> real \<Rightarrow> string"
  ticks :: nat
  stop_signal :: "nat \<Rightarrow> bool"

definition exists_path :: "world \<Rightarrow> path \<Rightarrow> bool" where
  "exists_path w p = (p \<in> fst ` set (files w) \<or> p \<in> set (dirs w))"

text \<open>
  Reading in text mode translates the line ends: \<^verbatim>\<open>\r\n\<close> and a lone \<^verbatim>\<open>\r\<close>
  are read as \<^verbatim>\<open>\n\<close>.
\<close>

fun universal_newlines :: "string \<Rightarrow> string" where
  "universal_newlines [] = []"
| "universal_newlines [c] = [if c = CHR 0x0D then CHR 0x0A else c]"
| "universal_newlines (c # d # cs) =
     (if c = CHR 0x0D \<and> d = CHR 0x0A then CHR 0x0A # universal_newlines cs
      else if c = CHR 0x0D then CHR 0x0A # universal_newlines (d # cs)
      else c # universal_newlines (d # cs))"

definition read_text :: "world \<Rightarrow> path \<Rightarrow> py_error + string" where
  \<comment> \<open>\<^verbatim>\<open>p.read_text(encoding="utf-8")\<close>\<close>
  "read_text w p =
     (if unreadable w p then Inl OSError
      else case map_of (files w) p of
             None \<Rightarrow> Inl FileNotFoundError
           | Some c \<Rightarrow> Inr (universal_newlines c))"

section \<open>orchestrator.py: folder scanning\<close>

definition endswith :: "string \<Rightarrow> string \<Rightarrow> bool" where
  "endswith s suf = suffix suf s"

definition startswith :: "string \<Rightarrow> string \<Rightarrow> bool" where
  "startswith s pre = prefix pre s"

text \<open>
  \<^verbatim>\<open>folder.rglob("*.md")\<close>: every entry strictly below the folder whose last
  component ends in \<^verbatim>\<open>.md\<close>.
\<close>

definition rglob_md :: "world \<Rightarrow> path \<Rightarrow> path list" where
  "rglob_md w folder =
     filter (\<lambda>p. strict_prefix folder p \<and> endswith (last p) ''.md'')
       (map fst (files w) @ dirs w)"

definition scan_folder :: "world \<Rightarrow> path \<Rightarrow> path set" where
  "scan_folder w folder =
     (if \<not> exists_path w folder then {}
      else set (filter (\<lambda>f. last f \<notin> {''.gitkeep'', ''TEMPLATE_approval.md''})
                  (rglob_md w folder)))"

text \<open>The attributes of \<^verbatim>\<open>Orchestrator\<close> that the modelled methods read or write.\<close>

record orch =
  vault_path :: string
  dry_run :: bool
  known_needs_action :: "path set"
  known_approved :: "path set"
  last_briefing_check :: string
  total_skills_run :: nat
  total_errors :: nat
  last_error :: "(string \<times> string \<times> string) option"

definition needs_action :: path where
  "needs_action = [''Needs_Action'']"

definition detect_new_needs_action :: "world \<Rightarrow> orch \<Rightarrow> path set \<times> orch" where
  "detect_new_needs_action w s =
     (let current = scan_folder w needs_action;
          new_files = current - known_needs_action s
      in (new_files, s\<lparr>known_needs_action := current\<rparr>))"

text \<open>
  Successive calls of \<^verbatim>\<open>_detect_new_needs_action\<close>, the \<open>k\<close>-th one finding the vault
  as the \<open>k\<close>-th world of the list; the result lists what each call reported.
\<close>

fun detect_calls :: "world list \<Rightarrow> orch \<Rightarrow> path set list" where
  "detect_calls [] s = []"
| "detect_calls (w # ws) s =
     (case detect_new_needs_action w s of (new_files, s1) \<Rightarrow> new_files # detect_calls ws s1)"

text \<open>The snapshot that the \<open>k\<close>-th call of the sequence compares against.\<close>

definition known_before :: "world list \<Rightarrow> orch \<Rightarrow> nat \<Rightarrow> path set" where
  "known_before ws s k =
     (if k = 0 then known_needs_action s else scan_folder (ws ! (k - 1)) needs_action)"

section \<open>Dates and times\<close>

text \<open>
  Decimal rendering, and the \<^verbatim>\<open>strftime\<close> formats the program uses. A
  \<^typ>\<open>datetime\<close> is what \<^verbatim>\<open>datetime.now(timezone.utc)\<close> returns.
\<close>

function digits :: "nat \<Rightarrow> string" where
  "digits n =
     (if n < 10 then [''0123456789'' ! n] else digits (n div 10) @ [''0123456789'' ! (n mod 10)])"
  by pat_completeness auto
termination
  by (relation "measure id") auto

declare digits.simps [simp del]

definition zfill :: "nat \<Rightarrow> string \<Rightarrow> string" where
  "zfill k s = replicate (k - length s) CHR ''0'' @ s"

definition strftime_date :: "datetime \<Rightarrow> string" where
  \<comment> \<open>\<^verbatim>\<open>%Y-%m-%d\<close>\<close>
  "strftime_date t =
     zfill 4 (digits (year t)) @ ''-'' @ zfill 2 (digits (month t)) @ ''-'' @ zfill 2 (digits (day t))"

definition strftime_time :: "datetime \<Rightarrow> string" where
  \<comment> \<open>\<^verbatim>\<open>%H:%M:%S\<close>\<close>
  "strftime_time t =
     zfill 2 (digits (hour t)) @ '':'' @ zfill 2 (digits (minute t)) @ '':''
       @ zfill 2 (digits (second t))"

definition strftime_stamp :: "datetime \<Rightarrow> string" where
  \<comment> \<open>\<^verbatim>\<open>%Y%m%d_%H%M%S\<close>\<close>
  "strftime_stamp t =
     zfill 4 (digits (year t)) @ zfill 2 (digits (month t)) @ zfill 2 (digits (day t)) @ ''_''
       @ zfill 2 (digits (hour t)) @ zfill 2 (digits (minute t)) @ zfill 2 (digits (second t))"

definition strftime_z :: "datetime \<Rightarrow> string" where
  \<comment> \<open>\<^verbatim>\<open>%Y-%m-%dT%H:%M:%SZ\<close>\<close>
  "strftime_z t = strftime_date t @ ''T'' @ strftime_time t @ ''Z''"

definition strftime_utc :: "datetime \<Rightarrow> string" where
  \<comment> \<open>\<^verbatim>\<open>%Y-%m-%d %H:%M:%S\<close>\<close>
  "strftime_utc t = strftime_date t @ '' '' @ strftime_time t"

definition isoformat :: "datetime \<Rightarrow> string" where
  "isoformat t =
     strftime_date t @ ''T'' @ strftime_time t
       @ (if microsecond t = 0 then [] else ''.'' @ zfill 6 (digits (microsecond t)))
       @ ''+00:00''"

text \<open>\<^verbatim>\<open>date.weekday()\<close> as the standard library computes it: Monday is 0.\<close>

definition is_leap :: "nat \<Rightarrow> bool" where
  "is_leap y = (y mod 4 = 0 \<and> (y mod 100 \<noteq> 0 \<or> y mod 400 = 0))"

definition days_before_year :: "nat \<Rightarrow> nat" where
  "days_before_year y = (let z = y - 1 in z * 365 + z div 4 - z div 100 + z div 400)"

definition days_before_month :: "nat \<Rightarrow> nat \<Rightarrow> nat" where
  "days_before_month y m =
     [0, 0, 31, 59, 90, 120, 151, 181, 212, 243, 273, 304, 334] ! m
       + (if m > 2 \<and> is_leap y then 1 else 0)"

definition toordinal :: "datetime \<Rightarrow> nat" where
  "toordinal t = days_before_year (year t) + days_before_month (year t) (month t) + day t"

definition weekday :: "datetime \<Rightarrow> nat" where
  "weekday t = (toordinal t + 6) mod 7"

section \<open>orchestrator.py: the weekly briefing schedule\<close>

definition BRIEFING_DAY :: nat where
  "BRIEFING_DAY = 6"

definition BRIEFING_HOUR :: nat where
  "BRIEFING_HOUR = 23"

text \<open>
  \<^verbatim>\<open>_should_run_briefing\<close>; the reading of \<^verbatim>\<open>datetime.now(timezone.utc)\<close> that
  the call takes is its first argument.
\<close>

definition should_run_briefing :: "datetime \<Rightarrow> orch \<Rightarrow> bool \<times> orch" where
  "should_run_briefing now s =
     (let today_str = strftime_date now
      in if weekday now = BRIEFING_DAY \<and> hour now = BRIEFING_HOUR
            \<and> last_briefing_check s \<noteq> today_str
         then (True, s\<lparr>last_briefing_check := today_str\<rparr>)
         else (False, s))"

text \<open>Successive evaluations of the predicate, at the given clock readings.\<close>

fun briefing_calls :: "datetime list \<Rightarrow> orch \<Rightarrow> bool list" where
  "briefing_calls [] s = []"
| "briefing_calls (t # ts) s =
     (case should_run_briefing t s of (r, s1) \<Rightarrow> r # briefing_calls ts s1)"

text \<open>The calendar date of a reading; dates are compared year first, then month, then day.\<close>

definition date_of :: "datetime \<Rightarrow> nat \<times> nat \<times> nat" where
  "date_of t = (year t, month t, day t)"

text \<open>How many of the evaluations made on date \<open>d\<close> returned true.\<close>

definition fired_on :: "nat \<times> nat \<times> nat \<Rightarrow> datetime list \<Rightarrow> orch \<Rightarrow> nat" where
  "fired_on d ts s =
     length (filter (\<lambda>(t, r). r \<and> date_of t = d) (zip ts (briefing_calls ts s)))"

section \<open>orchestrator.py: item type detection\<close>

text \<open>
  A text is the list of the bytes of its UTF-8 encoding. \<open>space_chars\<close> lists the
  encodings of the characters that \<^verbatim>\<open>str.strip\<close>, \<^verbatim>\<open>str.isspace\<close> and the
  \<^verbatim>\<open>\s\<close> of \<^verbatim>\<open>re\<close> take for white space: U+0009 to U+000D, U+001C to U+0020,
  U+0085, U+00A0, U+1680, U+2000 to U+200A, U+2028, U+2029, U+202F, U+205F and U+3000.
  \<open>space_width\<close> is the number of bytes of the white-space character that a text starts
  with, or 0, and \<open>space_width_end\<close> the same at its end; \<open>lstrip\<close> and \<open>rstrip\<close> remove
  such characters as long as there are any.
\<close>

definition space_chars :: "string list" where
  "space_chars =
     [[CHR 0x09], [CHR 0x0A], [CHR 0x0B], [CHR 0x0C], [CHR 0x0D],
      [CHR 0x1C], [CHR 0x1D], [CHR 0x1E], [CHR 0x1F], [CHR 0x20],
      [CHR 0xC2, CHR 0x85], [CHR 0xC2, CHR 0xA0],
      [CHR 0xE1, CHR 0x9A, CHR 0x80],
      [CHR 0xE2, CHR 0x80, CHR 0x80], [CHR 0xE2, CHR 0x80, CHR 0x81],
      [CHR 0xE2, CHR 0x80, CHR 0x82], [CHR 0xE2, CHR 0x80, CHR 0x83],
      [CHR 0xE2, CHR 0x80, CHR 0x84], [CHR 0xE2, CHR 0x80, CHR 0x85],
      [CHR 0xE2, CHR 0x80, CHR 0x86], [CHR 0xE2, CHR 0x80, CHR 0x87],
      [CHR 0xE2, CHR 0x80, CHR 0x88], [CHR 0xE2, CHR 0x80, CHR 0x89],
      [CHR 0xE2, CHR 0x80, CHR 0x8A],
      [CHR 0xE2, CHR 0x80, CHR 0xA8], [CHR 0xE2, CHR 0x80, CHR 0xA9],
      [CHR 0xE2, CHR 0x80, CHR 0xAF],
      [CHR 0xE2, CHR 0x81, CHR 0x9F],
      [CHR 0xE3, CHR 0x80, CHR 0x80]]"

definition space_width :: "string \<Rightarrow> nat" where
  "space_width s = (case filter (\<lambda>q. prefix q s) space_chars of [] \<Rightarrow> 0 | q # _ \<Rightarrow> length q)"

definition space_width_end :: "string \<Rightarrow> nat" where
  "space_width_end s = (case filter (\<lambda>q. suffix q s) space_chars of [] \<Rightarrow> 0 | q # _ \<Rightarrow> length q)"

function lstrip :: "string \<Rightarrow> string" where
  "lstrip s = (if space_width s = 0 then s else lstrip (drop (space_width s) s))"
  by pat_completeness auto
termination
  apply (relation "measure length")
   apply simp
  subgoal for s by (cases s) (simp add: space_width_def space_chars_def, simp)
  done

function rstrip :: "string \<Rightarrow> string" where
  "rstrip s = (if space_width_end s = 0 then s
               else rstrip (take (length s - space_width_end s) s))"
  by pat_completeness auto
termination
  apply (relation "measure length")
   apply simp
  subgoal for s by (cases s) (simp add: space_width_end_def space_chars_def, simp)
  done

declare lstrip.simps [simp del] rstrip.simps [simp del]

text \<open>\<^verbatim>\<open>s.strip()\<close>\<close>

definition strip :: "string \<Rightarrow> string" where
  "strip s = rstrip (lstrip s)"

text \<open>\<^verbatim>\<open>s.split(sep)\<close> for a one-character separator.\<close>

fun split :: "char \<Rightarrow> string \<Rightarrow> string list" where
  "split sep [] = [[]]"
| "split sep (c # cs) =
     (if c = sep then [] # split sep cs
      else (case split sep cs of [] \<Rightarrow> [[c]] | p # ps \<Rightarrow> (c # p) # ps))"

text \<open>\<^verbatim>\<open>s.split(sep, 1)\<close>: at most one cut, at the first separator.\<close>

definition split1 :: "char \<Rightarrow> string \<Rightarrow> string list" where
  "split1 sep s =
     (case dropWhile (\<lambda>c. c \<noteq> sep) s of
        [] \<Rightarrow> [s]
      | _ # rest \<Rightarrow> [takeWhile (\<lambda>c. c \<noteq> sep) s, rest])"

text \<open>Indexing a list raises \<^verbatim>\<open>IndexError\<close> out of range.\<close>

definition item :: "'a list \<Rightarrow> nat \<Rightarrow> py_error + 'a" where
  "item xs i = (if i < length xs then Inr (xs ! i) else Inl IndexError)"

text \<open>
  The loop of \<^verbatim>\<open>_detect_item_type\<close> over the lines of the file, with the
  \<^verbatim>\<open>return "unknown"\<close> that follows it.
\<close>

fun type_of_lines :: "string list \<Rightarrow> py_error + string" where
  "type_of_lines [] = Inr ''unknown''"
| "type_of_lines (l # ls) =
     (let line = strip l
      in if startswith line ''type:'' then
           (case item (split1 CHR '':'' line) 1 of Inl e \<Rightarrow> Inl e | Inr v \<Rightarrow> Inr (strip v))
         else if line = ''---'' \<and> \<not> startswith line ''---'' then Inr ''unknown''
         else type_of_lines ls)"

text \<open>
  \<^verbatim>\<open>_detect_item_type\<close>: the body of the \<^verbatim>\<open>try\<close>, then the handler, which turns
  every exception into the answer \<^verbatim>\<open>"unknown"\<close>.
\<close>

definition detect_item_type :: "world \<Rightarrow> path \<Rightarrow> py_error + string" where
  "detect_item_type w filepath =
     (case (case read_text w filepath of
              Inl e \<Rightarrow> Inl e
            | Inr text \<Rightarrow> type_of_lines (split CHR 0x0A text)) of
        Inl e \<Rightarrow> Inr ''unknown''
      | Inr v \<Rightarrow> Inr v)"

section \<open>File operations and the agent process\<close>

text \<open>
  An operation on the world returns its result or the exception it raises, together with
  the world it leaves: what was done before an exception stays done.
\<close>

type_synonym 'a outcome = "py_error + 'a"

definition nl :: string where
  "nl = [CHR 0x0A]"

definition datetime_now :: "world \<Rightarrow> datetime \<times> world" where
  \<comment> \<open>\<^verbatim>\<open>datetime.now(timezone.utc)\<close>\<close>
  "datetime_now w = (clock w (ticks w), w\<lparr>ticks := ticks w + 1\<rparr>)"

definition time_time :: "world \<Rightarrow> real \<times> world" where
  \<comment> \<open>\<^verbatim>\<open>time.time()\<close>\<close>
  "time_time w = (epoch w (ticks w), w\<lparr>ticks := ticks w + 1\<rparr>)"

definition sleep :: "nat \<Rightarrow> world \<Rightarrow> world" where
  \<comment> \<open>\<^verbatim>\<open>time.sleep\<close>: the time that passes shows in the later clock readings only\<close>
  "sleep secs w = w"

definition write_text :: "path \<Rightarrow> string \<Rightarrow> world \<Rightarrow> unit outcome \<times> world" where
  "write_text p c w =
     (case denies w p of
        Some r \<Rightarrow> (Inl (raised r), w)
      | None \<Rightarrow> (Inr (), w\<lparr>files := AList.update p c (files w),
                              journal := journal w @ [Write p c]\<rparr>))"

definition append_text :: "path \<Rightarrow> string \<Rightarrow> world \<Rightarrow> unit outcome \<times> world" where
  \<comment> \<open>\<^verbatim>\<open>open(p, "a")\<close> and one \<^verbatim>\<open>write\<close>: the file is created when absent\<close>
  "append_text p c w =
     (case denies w p of
        Some r \<Rightarrow> (Inl (raised r), w)
      | None \<Rightarrow>
          (Inr (), w\<lparr>files := AList.update p
                                 ((case map_of (files w) p of None \<Rightarrow> [] | Some old \<Rightarrow> old) @ c)
                                 (files w),
                      journal := journal w @ [Append p c]\<rparr>))"

definition unlink_missing_ok :: "path \<Rightarrow> world \<Rightarrow> unit outcome \<times> world" where
  \<comment> \<open>\<^verbatim>\<open>p.unlink(missing_ok=True)\<close>\<close>
  "unlink_missing_ok p w =
     (if map_of (files w) p = None then (Inr (), w)
      else case denies w p of
             Some r \<Rightarrow> (Inl (raised r), w)
           | None \<Rightarrow> (Inr (), w\<lparr>files := AList.delete p (files w),
                                   journal := journal w @ [Unlink p]\<rparr>))"

definition subprocess_run :: "string \<Rightarrow> world \<Rightarrow> completed outcome \<times> world" where
  \<comment> \<open>\<^verbatim>\<open>subprocess.run(["claude", "--print", "--dangerously-skip-permissions", prompt], ...)\<close>\<close>
  "subprocess_run prompt w =
     (case agent w (spawned w) prompt (files w) of
        (r, fs) \<Rightarrow> (r, w\<lparr>files := fs, spawned := spawned w + 1\<rparr>))"

fun join :: "string \<Rightarrow> string list \<Rightarrow> string" where
  "join sep [] = []"
| "join sep [x] = x"
| "join sep (x # y # ys) = x @ sep @ join sep (y # ys)"

section \<open>orchestrator.py: running a skill\<close>

text \<open>
  Calls of \<^verbatim>\<open>self.logger\<close> are left out: the logging module reports a failing
  handler on stderr and does not raise.
\<close>

definition logs_dir :: path where
  "logs_dir = [''Logs'']"

definition em_dash :: string where
  "em_dash = [CHR 0xE2, CHR 0x80, CHR 0x94]"

text \<open>
  \<^verbatim>\<open>Orchestrator._log_event\<close>; \<open>details\<close> are the keyword arguments in order, each
  value as \<^verbatim>\<open>str\<close> renders it.
\<close>

definition log_event :: "string \<Rightarrow> (string \<times> string) list \<Rightarrow> world \<Rightarrow> unit outcome \<times> world" where
  "log_event event_type details w =
     (case datetime_now w of (t1, w1) \<Rightarrow>
      case datetime_now w1 of (t2, w2) \<Rightarrow>
        (let today = strftime_date t1;
             log_file = logs_dir @ [today @ ''.md''];
             now_str = strftime_time t2;
             detail_str = join '', '' (map (\<lambda>(k, v). k @ ''='' @ v) details);
             entry = ''- `'' @ now_str @ ''` | **'' @ event_type @ ''** | '' @ detail_str @ nl
         in if \<not> exists_path w2 log_file then
              (let header =
                     ''---'' @ nl @ ''date: '' @ today @ nl @ ''type: daily_log'' @ nl @ ''---'' @ nl @ nl
                     @ ''# Daily Log '' @ em_dash @ '' '' @ today @ nl @ nl
                     @ ''## Orchestrator Events'' @ nl @ nl
               in write_text log_file (header @ entry) w2)
            else append_text log_file entry w2))"

definition build_prompt :: "orch \<Rightarrow> string \<Rightarrow> string \<Rightarrow> string" where
  "build_prompt s skill_name context =
     (let skill_path = vault_path s @ ''/.claude/skills/'' @ skill_name @ ''.md'';
          base = ''Read and follow the skill instructions in '' @ skill_path @ ''.''
      in if context \<noteq> [] then base @ '' Context: '' @ context else base)"

text \<open>
  The \<^verbatim>\<open>try\<close> block of \<^verbatim>\<open>_run_skill\<close>. An exception leaves it together with the
  attributes and the world as they are when it is raised.
\<close>

definition run_skill_try ::
  "string \<Rightarrow> string \<Rightarrow> orch \<Rightarrow> world \<Rightarrow> bool outcome \<times> orch \<times> world" where
  "run_skill_try skill_name prompt s w =
     (case subprocess_run prompt w of
        (Inl e, w1) \<Rightarrow> (Inl e, s, w1)
      | (Inr result, w1) \<Rightarrow>
          if returncode result = 0 then
            (let s1 = s\<lparr>total_skills_run := total_skills_run s + 1\<rparr>
             in case log_event ''skill_success'' [(''skill_name'', skill_name)] w1 of
                  (Inl e, w2) \<Rightarrow> (Inl e, s1, w2)
                | (Inr u, w2) \<Rightarrow> (Inr True, s1, w2))
          else
            (case log_event ''skill_failed''
                    [(''skill_name'', skill_name), (''error'', take_chars 200 (stderr result))] w1 of
               (Inl e, w2) \<Rightarrow> (Inl e, s, w2)
             | (Inr u, w2) \<Rightarrow> (Inr False, s, w2)))"

definition run_skill ::
  "string \<Rightarrow> string \<Rightarrow> orch \<Rightarrow> world \<Rightarrow> bool outcome \<times> orch \<times> world" where
  "run_skill skill_name context s w =
     (let prompt = build_prompt s skill_name context
      in if dry_run s then
           (case log_event ''skill_dry_run''
                   [(''skill_name'', skill_name), (''context'', context)] w of
              (Inl e, w1) \<Rightarrow> (Inl e, s, w1)
            | (Inr u, w1) \<Rightarrow> (Inr True, s\<lparr>total_skills_run := total_skills_run s + 1\<rparr>, w1))
         else
           (case run_skill_try skill_name prompt s w of
              (Inr b, s1, w1) \<Rightarrow> (Inr b, s1, w1)
            | (Inl e, s1, w1) \<Rightarrow>
                if e = TimeoutExpired then
                  (case log_event ''skill_timeout'' [(''skill_name'', skill_name)] w1 of
                     (Inl e2, w2) \<Rightarrow> (Inl e2, s1, w2)
                   | (Inr u, w2) \<Rightarrow> (Inr False, s1, w2))
                else if e = FileNotFoundError then
                  (case log_event ''skill_error''
                          [(''skill_name'', skill_name), (''error'', ''claude CLI not found'')] w1 of
                     (Inl e2, w2) \<Rightarrow> (Inl e2, s1, w2)
                   | (Inr u, w2) \<Rightarrow> (Inr False, s1, w2))
                else (Inl e, s1, w1)))"

definition MAX_RETRIES :: nat where
  "MAX_RETRIES = 1"

definition create_alert :: "string \<Rightarrow> world \<Rightarrow> unit outcome \<times> world" where
  "create_alert skill_name w =
     (case datetime_now w of (t, w1) \<Rightarrow>
        (let filename = ''ALERT_skill_failure_'' @ strftime_stamp t @ ''.md'';
             alert_path = needs_action @ [filename];
             content =
               ''---'' @ nl
               @ ''type: alert'' @ nl
               @ ''severity: high'' @ nl
               @ ''created: '' @ strftime_z t @ nl
               @ ''status: pending'' @ nl
               @ ''---'' @ nl @ nl
               @ ''# Alert: Skill Execution Failed'' @ nl @ nl
               @ ''**Skill**: `'' @ skill_name @ ''`'' @ nl
               @ ''**Time**: '' @ strftime_utc t @ '' UTC'' @ nl
               @ ''**Retries**: '' @ digits (MAX_RETRIES + 1) @ '' attempts (all failed)'' @ nl @ nl
               @ ''## Action Required'' @ nl
               @ ''Check Orchestrator.log for error details and resolve manually.'' @ nl
         in write_text alert_path content w1))"

definition run_skill_with_retry ::
  "string \<Rightarrow> string \<Rightarrow> orch \<Rightarrow> world \<Rightarrow> bool outcome \<times> orch \<times> world" where
  "run_skill_with_retry skill_name context s w =
     (case run_skill skill_name context s w of
        (Inl e, s1, w1) \<Rightarrow> (Inl e, s1, w1)
      | (Inr success, s1, w1) \<Rightarrow>
          if \<not> success then
            (case run_skill skill_name context s1 (sleep 5 w1) of
               (Inl e, s2, w2) \<Rightarrow> (Inl e, s2, w2)
             | (Inr success2, s2, w2) \<Rightarrow>
                 if \<not> success2 then
                   (case datetime_now w2 of (t, w3) \<Rightarrow>
                      (let s3 = s2\<lparr>total_errors := total_errors s2 + 1,
                                    last_error := Some (skill_name, isoformat t, take_chars 100 context)\<rparr>
                       in case create_alert skill_name w3 of
                            (Inl e, w4) \<Rightarrow> (Inl e, s3, w4)
                          | (Inr u, w4) \<Rightarrow> (Inr success2, s3, w4)))
                 else (Inr success2, s2, w2))
          else (Inr success, s1, w1))"

text \<open>
  What the journal records of the program's own writes below a directory, and whether a
  directory accepts writes.
\<close>

fun event_path :: "fs_event \<Rightarrow> path" where
  "event_path (Write p c) = p"
| "event_path (Append p c) = p"
| "event_path (Unlink p) = p"

definition ops_under :: "path \<Rightarrow> fs_event list \<Rightarrow> fs_event list" where
  "ops_under dir evs = filter (\<lambda>ev. prefix dir (event_path ev)) evs"

definition accepts_writes :: "world \<Rightarrow> path \<Rightarrow> bool" where
  "accepts_writes w dir = (\<forall>p. prefix dir p \<longrightarrow> denies w p = None)"

section \<open>security_config.py: the audit log\<close>

text \<open>
  The values that the callers hand to \<^verbatim>\<open>json.dumps\<close>: strings, integers, booleans,
  \<^verbatim>\<open>None\<close>, lists and dictionaries of them. \<open>dumps\<close> is \<^verbatim>\<open>json.dumps\<close> with
  its default separators and \<^verbatim>\<open>ensure_ascii\<close>.
\<close>

datatype json = JNull | JBool bool | JInt int | JStr string
  | JList "json list" | JDict "(string \<times> json) list"

definition hex4 :: "nat \<Rightarrow> string" where
  "hex4 n = map (\<lambda>k. ''0123456789abcdef'' ! (n div 16 ^ k mod 16)) [3, 2, 1, 0]"

definition escape_char :: "char \<Rightarrow> string" where
  "escape_char c =
     (let n = (of_char c :: nat)
      in if n = 0x22 then [CHR 0x5C, CHR 0x22]
         else if n = 0x5C then [CHR 0x5C, CHR 0x5C]
         else if n = 0x0A then [CHR 0x5C, CHR ''n'']
         else if n = 0x0D then [CHR 0x5C, CHR ''r'']
         else if n = 0x09 then [CHR 0x5C, CHR ''t'']
         else if n = 0x08 then [CHR 0x5C, CHR ''b'']
         else if n = 0x0C then [CHR 0x5C, CHR ''f'']
         else if n < 0x20 \<or> 0x7E < n then [CHR 0x5C, CHR ''u''] @ hex4 n
         else [c])"

definition json_string :: "string \<Rightarrow> string" where
  "json_string s = [CHR 0x22] @ concat (map escape_char s) @ [CHR 0x22]"

fun dumps :: "json \<Rightarrow> string" where
  "dumps JNull = ''null''"
| "dumps (JBool b) = (if b then ''true'' else ''false'')"
| "dumps (JInt i) = (if i < 0 then ''-'' @ digits (nat (- i)) else digits (nat i))"
| "dumps (JStr s) = json_string s"
| "dumps (JList xs) = ''['' @ join '', '' (map dumps xs) @ '']''"
| "dumps (JDict kvs) =
     ''{'' @ join '', '' (map (\<lambda>kv. json_string (fst kv) @ '': '' @ dumps (snd kv)) kvs) @ ''}''"

definition audit_dir :: path where
  "audit_dir = [''Logs'', ''audit'']"

text \<open>
  \<^verbatim>\<open>audit_log\<close>. The module's \<^verbatim>\<open>security\<close> object is built from the environment
  \<open>env\<close>; \<open>dry_run_arg\<close> and \<open>metadata\<close> are \<open>None\<close> when the caller leaves them out.
\<close>

definition audit_log ::
  "environ \<Rightarrow> string \<Rightarrow> string \<Rightarrow> string \<Rightarrow> string \<Rightarrow> bool option \<Rightarrow> (string \<times> json) list option
     \<Rightarrow> world \<Rightarrow> json outcome \<times> world" where
  "audit_log env action_type actor target result dry_run_arg metadata w =
     (let dry = (case dry_run_arg of None \<Rightarrow> security_dry_run env | Some b \<Rightarrow> b)
      in case datetime_now w of (t1, w1) \<Rightarrow>
        (let entry0 = [(''timestamp'', JStr (isoformat t1)),
                       (''action_type'', JStr action_type),
                       (''actor'', JStr actor),
                       (''target'', JStr target),
                       (''dry_run'', JBool dry),
                       (''result'', JStr result)];
             entry = (case metadata of
                        None \<Rightarrow> entry0
                      | Some m \<Rightarrow> if m \<noteq> [] then entry0 @ [(''metadata'', JDict m)] else entry0)
         in case datetime_now w1 of (t2, w2) \<Rightarrow>
           (let today = strftime_date t2;
                audit_file = audit_dir @ [''audit_'' @ today @ ''.jsonl'']
            in case append_text audit_file (dumps (JDict entry) @ nl) w2 of
                 (Inl e, w3) \<Rightarrow> if is_OSError e then (Inr (JDict entry), w3) else (Inl e, w3)
               | (Inr u, w3) \<Rightarrow> (Inr (JDict entry), w3))))"


section \<open>Sample values\<close>

text \<open>A freshly constructed orchestrator, and readings on Sunday 1 November 2026, 23 h.\<close>

definition orch0 :: orch where
  "orch0 = \<lparr>vault_path = ''/vault'', dry_run = False, known_needs_action = {}, known_approved = {},
     last_briefing_check = [], total_skills_run = 0, total_errors = 0, last_error = None\<rparr>"

definition sunday_23 :: "nat \<Rightarrow> datetime" where
  "sunday_23 m =
     \<lparr>year = 2026, month = 11, day = 1, hour = 23, minute = m, second = 0, microsecond = 0\<rparr>"

text \<open>
  A vault with one item in the inbox, an agent that always times out, and a clock that
  stands at Sunday 23 h.
\<close>

definition vault0 :: world where
  "vault0 =
     \<lparr>files = [([''Needs_Action'', ''a.md''], ''---'' @ [CHR 0x0A] @ ''type: email'' @ [CHR 0x0A] @ ''---'')],
      dirs = [[''Needs_Action''], [''Logs''], [''In_Progress''], [''Done'']],
      denies = (\<lambda>p. None), unreadable = (\<lambda>p. False), journal = [],
      agent = (\<lambda>n prompt fs. (Inl TimeoutExpired, fs)), spawned = 0,
      clock = (\<lambda>n. sunday_23 0), epoch = (\<lambda>n. 0),
      elapsed = (\<lambda>a b. ''0.0''), ticks = 0, stop_signal = (\<lambda>n. False)\<rparr>"

text \<open>The same vault with an agent whose first run times out and whose later runs succeed.\<close>

definition vault1 :: world where
  "vault1 =
     vault0\<lparr>agent := (\<lambda>n prompt fs.
        if n = 0 then (Inl TimeoutExpired, fs)
        else (Inr \<lparr>returncode = 0, stdout = ''done'', stderr = []\<rparr>, fs))\<rparr>"


section \<open>ralph_loop.py: the iterative task runner\<close>

text \<open>
  The lines the logger adds to \<^verbatim>\<open>RalphLoop.log\<close> and
  to the console are left out; opening the log file is kept, because it can fail.
\<close>

definition in_progress_dir :: path where
  "in_progress_dir = [''In_Progress'']"

definition done_dir :: path where
  "done_dir = [''Done'']"


definition COMPLETION_MARKER :: string where
  "COMPLETION_MARKER = ''TASK_COMPLETE''"

definition dquote :: string where
  "dquote = [CHR 0x22]"

definition str_int :: "int \<Rightarrow> string" where
  "str_int i = (if i < 0 then ''-'' @ digits (nat (- i)) else digits (nat i))"

definition str_bool :: "bool \<Rightarrow> string" where
  "str_bool b = (if b then ''True'' else ''False'')"

text \<open>One entry of \<^verbatim>\<open>self.iterations\<close>, and the attributes of \<^verbatim>\<open>RalphLoop\<close>.\<close>

record iteration =
  it_number :: int
  it_timestamp :: string
  it_success :: bool
  it_duration_seconds :: string
  it_summary :: string
  it_output_length :: nat

record ralph =
  rl_vault_path :: string
  task_description :: string
  max_iterations :: int
  rl_dry_run :: bool
  task_id :: string
  task_filename :: string
  task_file :: path
  iterations :: "iteration list"
  rl_completed :: bool







subsection \<open>The task state file\<close>

definition create_task_file :: "ralph \<Rightarrow> world \<Rightarrow> unit outcome \<times> world" where
  "create_task_file r w =
     (case datetime_now w of (t, w1) \<Rightarrow>
        (let content =
               ''---'' @ nl
               @ ''type: ralph_loop_task'' @ nl
               @ ''task_id: '' @ task_id r @ nl
               @ ''description: '' @ dquote @ task_description r @ dquote @ nl
               @ ''created: '' @ strftime_z t @ nl
               @ ''status: in_progress'' @ nl
               @ ''max_iterations: '' @ str_int (max_iterations r) @ nl
               @ ''current_iteration: 0'' @ nl
               @ ''dry_run: '' @ lower (str_bool (rl_dry_run r)) @ nl
               @ ''---'' @ nl @ nl
               @ ''# Task: '' @ task_description r @ nl @ nl
               @ ''## Status'' @ nl
               @ ''In progress '' @ em_dash @ '' Ralph Loop running.'' @ nl @ nl
               @ ''## Iteration Log'' @ nl
               @ ''_No iterations yet_'' @ nl
         in write_text (task_file r) content w1))"

definition iter_entry :: "iteration \<Rightarrow> string" where
  "iter_entry it =
     ''### Iteration '' @ str_int (it_number it) @ nl
     @ ''- **Time**: '' @ it_timestamp it @ nl
     @ ''- **Duration**: '' @ it_duration_seconds it @ ''s'' @ nl
     @ ''- **Result**: '' @ (if it_success it then ''success'' else ''failed'') @ nl
     @ ''- **Output**: '' @ take_chars 200 (it_summary it) @ nl"

text \<open>The text that \<^verbatim>\<open>_update_task_file\<close> writes, \<open>now\<close> being its clock reading.\<close>

definition task_content :: "ralph \<Rightarrow> int \<Rightarrow> string \<Rightarrow> datetime \<Rightarrow> string" where
  "task_content r iteration status now =
     (let iter_entries = map iter_entry (iterations r);
          iter_log = (if iter_entries \<noteq> [] then join nl iter_entries
                      else ''_No iterations yet_'' @ nl)
      in ''---'' @ nl
         @ ''type: ralph_loop_task'' @ nl
         @ ''task_id: '' @ task_id r @ nl
         @ ''description: '' @ dquote @ task_description r @ dquote @ nl
         @ ''created: '' @ (if iterations r \<noteq> [] then it_timestamp (hd (iterations r))
                            else strftime_z now) @ nl
         @ ''last_updated: '' @ strftime_z now @ nl
         @ ''status: '' @ status @ nl
         @ ''max_iterations: '' @ str_int (max_iterations r) @ nl
         @ ''current_iteration: '' @ str_int iteration @ nl
         @ ''dry_run: '' @ lower (str_bool (rl_dry_run r)) @ nl
         @ ''---'' @ nl @ nl
         @ ''# Task: '' @ task_description r @ nl @ nl
         @ ''## Status'' @ nl
         @ (if status = ''completed'' then ''Completed'' else ''In progress'') @ '' ''
         @ em_dash @ '' iteration '' @ str_int iteration @ ''/'' @ str_int (max_iterations r)
         @ nl @ nl
         @ ''## Iteration Log'' @ nl @ nl
         @ iter_log)"

text \<open>
  \<^verbatim>\<open>_update_task_file\<close>: the file moves to the done directory when the status is
  \<^verbatim>\<open>completed\<close> and the file is in the in-progress directory; otherwise it is
  rewritten where it is.
\<close>

definition update_task_file ::
  "int \<Rightarrow> string \<Rightarrow> string \<Rightarrow> ralph \<Rightarrow> world \<Rightarrow> unit outcome \<times> ralph \<times> world" where
  "update_task_file iteration output_summary status r w =
     (case datetime_now w of (t, w1) \<Rightarrow>
        (let content = task_content r iteration status t;
             target = task_file r
         in if status = ''completed'' \<and> butlast target = in_progress_dir then
              (let new_path = done_dir @ [task_filename r]
               in case unlink_missing_ok target w1 of
                    (Inl e, w2) \<Rightarrow> (Inl e, r, w2)
                  | (Inr u, w2) \<Rightarrow>
                      (let r1 = r\<lparr>task_file := new_path\<rparr>
                       in case write_text new_path content w2 of
                            (Inl e, w3) \<Rightarrow> (Inl e, r1, w3)
                          | (Inr u, w3) \<Rightarrow> (Inr (), r1, w3)))
            else
              (case write_text target content w1 of
                 (Inl e, w2) \<Rightarrow> (Inl e, r, w2)
               | (Inr u, w2) \<Rightarrow> (Inr (), r, w2))))"

subsection \<open>Completion detection\<close>

definition check_completion :: "string \<Rightarrow> ralph \<Rightarrow> world \<Rightarrow> bool \<times> ralph" where
  "check_completion claude_output r w =
     (let done_path = done_dir @ [task_filename r]
      in if exists_path w done_path then (True, r\<lparr>task_file := done_path\<rparr>)
         else if sublist COMPLETION_MARKER claude_output then (True, r)
         else
           (let pending_items = filter (\<lambda>f. last f \<noteq> ''.gitkeep'') (rglob_md w needs_action)
            in if pending_items = [] \<and> sublist ''Needs_Action'' (task_description r)
               then (True, r)
               else (False, r)))"
subsection \<open>The prompt and the agent\<close>

definition prompt_history :: "iteration \<Rightarrow> string list" where
  "prompt_history it =
     [''### Iteration '' @ str_int (it_number it),
      ''Result: '' @ (if it_success it then ''success'' else ''failed''),
      ''Output summary: '' @ take_chars 300 (it_summary it),
      '''']"

definition ralph_build_prompt :: "int \<Rightarrow> ralph \<Rightarrow> string" where
  "ralph_build_prompt iteration r =
     (let prompt_parts =
            [''You are the AI Employee working in an Obsidian vault at '' @ rl_vault_path r @ ''.'',
             ''Your skills are defined in .claude/skills/ '' @ em_dash
               @ '' read them for instructions.'',
             ''Your rules are in Company_Handbook.md '' @ em_dash @ '' always follow them.'',
             '''',
             ''## Task'',
             task_description r,
             ''''];
          prompt_parts2 =
            (if iteration > 1 \<and> iterations r \<noteq> [] then
               prompt_parts
               @ [''## Previous Iterations'',
                  ''This is iteration '' @ str_int iteration @ '' of ''
                    @ str_int (max_iterations r) @ ''. ''
                    @ ''The task is NOT yet complete. Here is what was done so far:'',
                  '''']
               @ concat (map prompt_history (iterations r))
               @ [''## What to do now'',
                  ''Continue where the previous iteration left off. ''
                    @ ''Do NOT repeat work that was already completed. ''
                    @ ''Focus on the remaining steps.'',
                  '''']
             else prompt_parts)
      in join nl
           (prompt_parts2
            @ [''## Completion'',
               ''When the task is fully complete:'',
               ''1. Move the task file from /In_Progress/'' @ task_filename r @ '' to /Done/'',
               ''2. Include the string TASK_COMPLETE in your final output'',
               ''3. Update Dashboard.md with the results'',
               '''',
               ''If the task is NOT complete after this iteration, summarize what was done'',
               ''and what still needs to be done. Do NOT output TASK_COMPLETE.'']))"

text \<open>
  \<^verbatim>\<open>_run_claude\<close>: in dry-run mode the agent is not started; otherwise a timeout and
  a missing executable are reported as failures and any other exception is passed on.
\<close>

definition run_claude ::
  "environ \<Rightarrow> string \<Rightarrow> ralph \<Rightarrow> world \<Rightarrow> (bool \<times> string) outcome \<times> world" where
  "run_claude env prompt r w =
     (if rl_dry_run r then
        (case audit_log env ''skill_run'' ''ralph_loop'' (take_chars 100 (task_description r)) ''dry_run''
                None (Some [(''task_id'', JStr (task_id r))]) w of
           (Inl e, w1) \<Rightarrow> (Inl e, w1)
         | (Inr entry, w1) \<Rightarrow>
             (Inr (True, ''DRY RUN: Would execute task. Iteration prompt length: ''
                          @ digits (py_len prompt) @ '' chars''), w1))
      else
        (case subprocess_run prompt w of
           (Inr result, w1) \<Rightarrow>
             (let output = stdout result
              in if returncode result = 0 then (Inr (True, output), w1)
                 else
                   (let error = (if stderr result \<noteq> [] then stderr result else ''Unknown error'')
                    in (Inr (False, ''ERROR (exit '' @ str_int (returncode result) @ ''): ''
                                     @ take_chars 200 error), w1)))
         | (Inl e, w1) \<Rightarrow>
             if e = TimeoutExpired then (Inr (False, ''TIMEOUT after 180s''), w1)
             else if e = FileNotFoundError then (Inr (False, ''ERROR: claude CLI not found''), w1)
             else (Inl e, w1)))"

subsection \<open>Helpers\<close>

text \<open>The loop of \<^verbatim>\<open>_summarize_output\<close> that keeps the first five substantive lines.\<close>

fun meaningful_lines :: "string list \<Rightarrow> string list \<Rightarrow> string list" where
  "meaningful_lines [] meaningful = meaningful"
| "meaningful_lines (line # rest) meaningful =
     (if startswith line ''{'' \<or> startswith line ''```'' \<or> startswith line ''---''
      then meaningful_lines rest meaningful
      else (let meaningful2 = meaningful @ [line]
            in if length meaningful2 \<ge> 5 then meaningful2
               else meaningful_lines rest meaningful2))"

definition summarize_output :: "string \<Rightarrow> py_error + string" where
  "summarize_output output =
     (if output = [] then Inr ''(no output)''
      else
        (let lines = filter (\<lambda>l. l \<noteq> []) (map strip (split CHR 0x0A (strip output)));
             meaningful = meaningful_lines lines []
         in if meaningful \<noteq> [] then Inr (join '' | '' meaningful)
            else case item lines 0 of
                   Inl e \<Rightarrow> Inl e
                 | Inr l \<Rightarrow> Inr (take_chars 200 l)))"

definition ralph_log_event ::
  "string \<Rightarrow> (string \<times> string) list \<Rightarrow> ralph \<Rightarrow> world \<Rightarrow> unit outcome \<times> world" where
  "ralph_log_event event_type details r w =
     (case datetime_now w of (t1, w1) \<Rightarrow>
      case datetime_now w1 of (t2, w2) \<Rightarrow>
        (let today = strftime_date t1;
             log_file = logs_dir @ [today @ ''.md''];
             now_str = strftime_time t2;
             detail_str = join '', '' (map (\<lambda>(k, v). k @ ''='' @ v) details);
             entry = ''- `'' @ now_str @ ''` | **'' @ event_type @ ''** | task='' @ task_id r
                     @ '', '' @ detail_str @ nl
         in if \<not> exists_path w2 log_file then
              (let header =
                     ''---'' @ nl @ ''date: '' @ today @ nl @ ''type: daily_log'' @ nl @ ''---'' @ nl @ nl
                     @ ''# Daily Log '' @ em_dash @ '' '' @ today @ nl @ nl
               in write_text log_file (header @ entry) w2)
            else append_text log_file entry w2))"

definition alert_entry :: "iteration \<Rightarrow> string" where
  "alert_entry it =
     ''- **Iteration '' @ str_int (it_number it) @ ''**: ''
     @ (if it_success it then ''OK'' else ''FAILED'') @ '' ''
     @ ''('' @ it_duration_seconds it @ ''s) '' @ em_dash @ '' ''
     @ take_chars 100 (it_summary it) @ nl"

text \<open>The text of the alert: one line for each entry of \<^verbatim>\<open>self.iterations\<close>.\<close>

definition alert_content :: "ralph \<Rightarrow> datetime \<Rightarrow> string" where
  "alert_content r now =
     ''---'' @ nl
     @ ''type: alert'' @ nl
     @ ''severity: medium'' @ nl
     @ ''created: '' @ strftime_z now @ nl
     @ ''status: pending'' @ nl
     @ ''---'' @ nl @ nl
     @ ''# Alert: Ralph Loop Exhausted'' @ nl @ nl
     @ ''**Task**: '' @ task_description r @ nl
     @ ''**Task ID**: '' @ task_id r @ nl
     @ ''**Iterations**: '' @ str_int (max_iterations r) @ ''/'' @ str_int (max_iterations r)
     @ '' (all used)'' @ nl
     @ ''**State file**: `In_Progress/'' @ task_filename r @ ''`'' @ nl @ nl
     @ ''## Iteration Summary'' @ nl @ nl
     @ concat (map alert_entry (iterations r))
     @ nl @ ''## Action Required'' @ nl
     @ ''Review the task state file and iteration log. Either:'' @ nl
     @ ''1. Re-run with more iterations: ''
     @ ''`python ralph_loop.py '' @ dquote @ task_description r @ dquote
     @ '' --max-iterations 15`'' @ nl
     @ ''2. Complete the remaining steps manually'' @ nl
     @ ''3. Move the task file to /Done/ if the task is actually complete'' @ nl"

definition alert_file :: "ralph \<Rightarrow> path" where
  "alert_file r = needs_action @ [''ALERT_ralph_loop_exhausted_'' @ task_id r @ ''.md'']"

definition ralph_create_alert :: "ralph \<Rightarrow> world \<Rightarrow> unit outcome \<times> world" where
  "ralph_create_alert r w =
     (case datetime_now w of (t, w1) \<Rightarrow> write_text (alert_file r) (alert_content r t) w1)"

subsection \<open>The main loop\<close>

text \<open>
  The body of the \<^verbatim>\<open>for\<close> loop of \<^verbatim>\<open>run\<close>. Its result is \<open>Some b\<close> when the
  body returns \<open>b\<close> from \<^verbatim>\<open>run\<close>, and \<open>None\<close> when the loop goes on.
\<close>

definition iteration_step ::
  "environ \<Rightarrow> int \<Rightarrow> ralph \<Rightarrow> world \<Rightarrow> bool option outcome \<times> ralph \<times> world" where
  "iteration_step env iteration r w =
     (if stop_signal w (nat iteration) then
        (case update_task_file (iteration - 1) ''Interrupted by user'' ''interrupted'' r w of
           (Inl e, r1, w1) \<Rightarrow> (Inl e, r1, w1)
         | (Inr u, r1, w1) \<Rightarrow>
             (case ralph_log_event ''ralph_interrupted'' [(''iteration'', str_int iteration)] r1 w1 of
                (Inl e, w2) \<Rightarrow> (Inl e, r1, w2)
              | (Inr u, w2) \<Rightarrow> (Inr (Some False), r1, w2)))
      else
        (let prompt = ralph_build_prompt iteration r
         in case time_time w of (start_time, w1) \<Rightarrow>
            case run_claude env prompt r w1 of
              (Inl e, w2) \<Rightarrow> (Inl e, r, w2)
            | (Inr (success, output), w2) \<Rightarrow>
            case time_time w2 of (end_time, w3) \<Rightarrow>
              (let duration = elapsed w3 start_time end_time
               in case summarize_output output of
                    Inl e \<Rightarrow> (Inl e, r, w3)
                  | Inr summary \<Rightarrow>
                  case datetime_now w3 of (t, w4) \<Rightarrow>
                    (let iter_record = \<lparr>it_number = iteration,
                                         it_timestamp = strftime_z t,
                                         it_success = success,
                                         it_duration_seconds = duration,
                                         it_summary = summary,
                                         it_output_length = py_len output\<rparr>;
                         r1 = r\<lparr>iterations := iterations r @ [iter_record]\<rparr>
                     in case (if success then check_completion output r1 w4 else (False, r1)) of
                          (finished, r2) \<Rightarrow>
                            if finished then
                              (let r3 = r2\<lparr>rl_completed := True\<rparr>
                               in case update_task_file iteration summary ''completed'' r3 w4 of
                                    (Inl e, r4, w5) \<Rightarrow> (Inl e, r4, w5)
                                  | (Inr u, r4, w5) \<Rightarrow>
                                      (case ralph_log_event ''ralph_complete''
                                              [(''iterations'', str_int iteration),
                                               (''duration_total'', duration)] r4 w5 of
                                         (Inl e, w6) \<Rightarrow> (Inl e, r4, w6)
                                       | (Inr u, w6) \<Rightarrow> (Inr (Some True), r4, w6)))
                            else
                              (case update_task_file iteration summary ''in_progress'' r2 w4 of
                                 (Inl e, r4, w5) \<Rightarrow> (Inl e, r4, w5)
                               | (Inr u, r4, w5) \<Rightarrow>
                                   (case ralph_log_event ''ralph_iteration''
                                           [(''iteration'', str_int iteration),
                                            (''success'', str_bool success)] r4 w5 of
                                      (Inl e, w6) \<Rightarrow> (Inl e, r4, w6)
                                    | (Inr u, w6) \<Rightarrow>
                                        (Inr None, r4,
                                         if iteration < max_iterations r4 then sleep 2 w6
                                         else w6)))))))"

fun for_iterations ::
  "environ \<Rightarrow> int list \<Rightarrow> ralph \<Rightarrow> world \<Rightarrow> bool option outcome \<times> ralph \<times> world" where
  "for_iterations env [] r w = (Inr None, r, w)"
| "for_iterations env (iteration # rest) r w =
     (case iteration_step env iteration r w of
        (Inr None, r1, w1) \<Rightarrow> for_iterations env rest r1 w1
      | (Inr (Some b), r1, w1) \<Rightarrow> (Inr (Some b), r1, w1)
      | (Inl e, r1, w1) \<Rightarrow> (Inl e, r1, w1))"

definition exhausted :: "ralph \<Rightarrow> world \<Rightarrow> bool outcome \<times> ralph \<times> world" where
  \<comment> \<open>what \<^verbatim>\<open>run\<close> does after the loop\<close>
  "exhausted r w =
     (case update_task_file (max_iterations r) ''Max iterations reached''
             ''max_iterations_exceeded'' r w of
        (Inl e, r1, w1) \<Rightarrow> (Inl e, r1, w1)
      | (Inr u, r1, w1) \<Rightarrow>
          (case ralph_log_event ''ralph_exhausted''
                  [(''iterations'', str_int (max_iterations r1))] r1 w1 of
             (Inl e, w2) \<Rightarrow> (Inl e, r1, w2)
           | (Inr u, w2) \<Rightarrow>
               (case ralph_create_alert r1 w2 of
                  (Inl e, w3) \<Rightarrow> (Inl e, r1, w3)
                | (Inr u, w3) \<Rightarrow> (Inr False, r1, w3))))"

definition run :: "environ \<Rightarrow> ralph \<Rightarrow> world \<Rightarrow> bool outcome \<times> ralph \<times> world" where
  "run env r w =
     (case create_task_file r w of
        (Inl e, w1) \<Rightarrow> (Inl e, r, w1)
      | (Inr u, w1) \<Rightarrow>
          (case ralph_log_event ''ralph_start'' [] r w1 of
             (Inl e, w2) \<Rightarrow> (Inl e, r, w2)
           | (Inr u, w2) \<Rightarrow>
               (case for_iterations env [1 .. max_iterations r] r w2 of
                  (Inl e, r1, w3) \<Rightarrow> (Inl e, r1, w3)
                | (Inr (Some b), r1, w3) \<Rightarrow> (Inr b, r1, w3)
                | (Inr None, r1, w3) \<Rightarrow> exhausted r1 w3)))"


subsection \<open>Vocabulary of the statements about the task runner\<close>


definition kept :: "world \<Rightarrow> world \<Rightarrow> bool" where
  "kept w w' = (denies w' = denies w \<and> agent w' = agent w \<and> stop_signal w' = stop_signal w)"

subsection \<open>Sample values for the task runner\<close>

text \<open>
  The loop that \<^verbatim>\<open>RalphLoop\<close> constructs at the sample clock reading for two
  iterations in live mode, and vaults for it: one where the task file already lies in the
  done directory and the agent times out, one where it lies there and the agent succeeds
  without printing the marker, one where a stop signal has arrived, and one where the
  agent prints the marker.
\<close>

definition ralph0 :: ralph where
  "ralph0 =
     \<lparr>rl_vault_path = ''/vault'', task_description = ''Process the inbox'',
      max_iterations = 2, rl_dry_run = False, task_id = ''20261101_230000'',
      task_filename = ''TASK_Process_the_inbox_20261101_230000.md'',
      task_file = [''In_Progress'', ''TASK_Process_the_inbox_20261101_230000.md''],
      iterations = [], rl_completed = False\<rparr>"

definition vault_moved_timeout :: world where
  "vault_moved_timeout =
     vault0\<lparr>files := ([''Done'', ''TASK_Process_the_inbox_20261101_230000.md''], ''moved'')
                       # files vault0\<rparr>"

definition vault_moved :: world where
  "vault_moved =
     vault_moved_timeout\<lparr>agent := (\<lambda>n prompt fs.
        (Inr \<lparr>returncode = 0, stdout = ''Moved the task file.'', stderr = []\<rparr>, fs))\<rparr>"

definition vault_stop :: world where
  "vault_stop = vault0\<lparr>stop_signal := (\<lambda>k. True)\<rparr>"

definition vault_marker :: world where
  "vault_marker =
     vault0\<lparr>agent := (\<lambda>n prompt fs.
        (Inr \<lparr>returncode = 0, stdout = ''All done. TASK_COMPLETE'', stderr = []\<rparr>, fs))\<rparr>"

section \<open>Properties\<close>

lemma digits_numeral [simp]:
  "digits (numeral k) =
     (if (numeral k :: nat) < 10 then [''0123456789'' ! numeral k]
      else digits (numeral k div 10) @ [''0123456789'' ! (numeral k mod 10)])"
  by (rule digits.simps)

lemma digits_0 [simp]: "digits 0 = ''0''"
  by (simp add: digits.simps)

lemma digits_1 [simp]: "digits (Suc 0) = ''1''"
  by (simp add: digits.simps)

lemma allow_fresh:
  "int (length (filter (\<lambda>t. t > now - window_seconds b) (timestamps b))) < max_count b \<Longrightarrow>
   allow now b =
     (True, b\<lparr>timestamps := filter (\<lambda>t. t > now - window_seconds b) (timestamps b) @ [now]\<rparr>)"
  by (simp add: allow_def Let_def)

lemma allow_full:
  "int (length (filter (\<lambda>t. t > now - window_seconds b) (timestamps b))) \<ge> max_count b \<Longrightarrow>
   allow now b =
     (False, b\<lparr>timestamps := filter (\<lambda>t. t > now - window_seconds b) (timestamps b)\<rparr>)"
  by (simp add: allow_def Let_def)

text \<open>
  C2. A bucket built with \<open>max_count = 3\<close> and a window of 60 seconds, called at four
  readings \<open>t1 \<le> t2 \<le> t3 \<le> t4\<close> less than 60 seconds apart, answers true, true, true,
  false. The denied call leaves the three admitted timestamps and appends none. A later
  call, at a reading \<open>t5\<close> for which the window has elapsed since the oldest admitted
  call (so also when it has elapsed since all of them), answers true again.
\<close>

theorem allow_window_3_60:
  assumes "t1 \<le> t2" and "t2 \<le> t3" and "t3 \<le> t4" and "t4 < t1 + 60" and "t1 + 60 \<le> t5"
  shows "\<exists>b4. allow_calls [t1, t2, t3, t4] (RateLimitBucket 3 60) =
                 ([True, True, True, False], b4)
             \<and> timestamps b4 = [t1, t2, t3]
             \<and> fst (allow t5 b4)"
  using assms by (simp add: RateLimitBucket_def allow_def Let_def)

theorem allow_window_3_60_witness:
  "\<exists>b4. allow_calls [0, 10, 20, 30] (RateLimitBucket 3 60) = ([True, True, True, False], b4)
        \<and> timestamps b4 = [0, 10, 20]
        \<and> fst (allow 61 b4)"
  using allow_window_3_60 [of 0 10 20 30 61] by simp


text \<open>
  C9 (the code at a failing input). With \<^verbatim>\<open>DRY_RUN=yes\<close> the orchestrator computes
  live mode and the security configuration computes dry-run mode.
\<close>

theorem dry_run_yes_differs:
  "from_env [''VAULT_PATH'' \<mapsto> ''/vault'', ''DRY_RUN'' \<mapsto> ''yes''] = Inr (''/vault'', False)
   \<and> security_dry_run [''VAULT_PATH'' \<mapsto> ''/vault'', ''DRY_RUN'' \<mapsto> ''yes''] = True"
  by (simp add: from_env_def security_dry_run_def getenv_def lower_def lower_char_def)

lemma detect_calls_length: "length (detect_calls ws s) = length ws"
  by (induction ws arbitrary: s) (auto simp: detect_new_needs_action_def Let_def)

lemma detect_calls_nth:
  "k < length ws \<Longrightarrow>
   detect_calls ws s ! k = scan_folder (ws ! k) needs_action - known_before ws s k"
proof (induction ws arbitrary: s k)
  case Nil
  then show ?case by simp
next
  case (Cons w ws)
  show ?case
  proof (cases k)
    case 0
    then show ?thesis
      by (simp add: detect_new_needs_action_def Let_def known_before_def)
  next
    case (Suc j)
    with Cons.prems have j: "j < length ws" by simp
    let ?s1 = "s\<lparr>known_needs_action := scan_folder w needs_action\<rparr>"
    have "detect_calls (w # ws) s ! k = detect_calls ws ?s1 ! j"
      using Suc by (simp add: detect_new_needs_action_def Let_def)
    also have "\<dots> = scan_folder (ws ! j) needs_action - known_before ws ?s1 j"
      by (rule Cons.IH [OF j])
    also have "known_before ws ?s1 j = known_before (w # ws) s k"
      using Suc by (cases j) (simp_all add: known_before_def)
    finally show ?thesis using Suc by simp
  qed
qed

text \<open>
  C3. In any sequence of scans of the watched directory, a file found by scan \<open>i\<close> and
  absent from the snapshot known before it is reported as new by that call, and no later
  call \<open>j\<close> reports it as long as every scan from \<open>i\<close> to \<open>j\<close> still finds it: each
  call replaces the snapshot by what it has just scanned.
\<close>

theorem detect_new_once:
  assumes "i < length ws"
    and "f \<in> scan_folder (ws ! i) needs_action"
    and "f \<notin> known_before ws s i"
  shows "f \<in> detect_calls ws s ! i
       \<and> (\<forall>j. i < j \<and> j < length ws
              \<and> (\<forall>k. i < k \<and> k \<le> j \<longrightarrow> f \<in> scan_folder (ws ! k) needs_action)
            \<longrightarrow> f \<notin> detect_calls ws s ! j)"
proof
  show "f \<in> detect_calls ws s ! i"
    using assms by (simp add: detect_calls_nth)
next
  show "\<forall>j. i < j \<and> j < length ws
              \<and> (\<forall>k. i < k \<and> k \<le> j \<longrightarrow> f \<in> scan_folder (ws ! k) needs_action)
            \<longrightarrow> f \<notin> detect_calls ws s ! j"
  proof (intro allI impI)
    fix j
    assume h: "i < j \<and> j < length ws
              \<and> (\<forall>k. i < k \<and> k \<le> j \<longrightarrow> f \<in> scan_folder (ws ! k) needs_action)"
    then have "f \<in> scan_folder (ws ! (j - 1)) needs_action"
    proof (cases "j - 1 = i")
      case True
      then show ?thesis using assms(2) by simp
    next
      case False
      with h have "i < j - 1 \<and> j - 1 \<le> j" by arith
      with h show ?thesis by blast
    qed
    moreover from h have "known_before ws s j = scan_folder (ws ! (j - 1)) needs_action"
      by (simp add: known_before_def)
    ultimately show "f \<notin> detect_calls ws s ! j"
      using h by (simp add: detect_calls_nth)
  qed
qed

lemma fired_on_Cons:
  "fired_on d (t # ts) s =
     (if fst (should_run_briefing t s) \<and> date_of t = d then 1 else 0)
       + fired_on d ts (snd (should_run_briefing t s))"
  by (simp add: fired_on_def split: prod.splits)

lemma strftime_date_cong: "date_of t = date_of u \<Longrightarrow> strftime_date t = strftime_date u"
  by (simp add: date_of_def strftime_date_def)

lemma fired_on_other_dates: "\<forall>t \<in> set ts. date_of t \<noteq> d \<Longrightarrow> fired_on d ts s = 0"
  by (induction ts arbitrary: s) (simp_all add: fired_on_Cons, simp add: fired_on_def)

lemma fired_on_marked:
  "sorted (map date_of ts) \<Longrightarrow> \<forall>t \<in> set ts. date_of t0 \<le> date_of t \<Longrightarrow>
   last_briefing_check s = strftime_date t0 \<Longrightarrow> fired_on (date_of t0) ts s = 0"
proof (induction ts arbitrary: s)
  case Nil
  then show ?case by (simp add: fired_on_def)
next
  case (Cons t ts)
  show ?case
  proof (cases "date_of t = date_of t0")
    case True
    then have "strftime_date t = last_briefing_check s"
      using Cons.prems(3) strftime_date_cong [of t t0] by simp
    then have "should_run_briefing t s = (False, s)"
      by (simp add: should_run_briefing_def Let_def)
    moreover have "fired_on (date_of t0) ts s = 0"
      using Cons by simp
    ultimately show ?thesis by (simp add: fired_on_Cons)
  next
    case False
    with Cons.prems(2) have lt: "date_of t0 < date_of t" by (simp add: order.strict_iff_order)
    have "\<forall>u \<in> set ts. date_of u \<noteq> date_of t0"
    proof
      fix u assume "u \<in> set ts"
      with Cons.prems(1) have "date_of t \<le> date_of u" by auto
      with lt show "date_of u \<noteq> date_of t0" by auto
    qed
    then have "fired_on (date_of t0) ts (snd (should_run_briefing t s)) = 0"
      by (rule fired_on_other_dates)
    with False show ?thesis by (simp add: fired_on_Cons)
  qed
qed

text \<open>
  C7. Take any sequence of evaluations of the weekly briefing predicate, at clock readings
  whose calendar dates never decrease, from any state of the orchestrator. For every
  calendar date, at most one of the evaluations made on that date returns true, however
  many of them fall within the matching weekday and hour.
\<close>

theorem briefing_once_per_date:
  assumes "sorted (map date_of ts)"
  shows "fired_on d ts s \<le> 1"
  using assms
proof (induction ts arbitrary: s)
  case Nil
  then show ?case by (simp add: fired_on_def)
next
  case (Cons t ts)
  show ?case
  proof (cases "fst (should_run_briefing t s) \<and> date_of t = d")
    case True
    then have "last_briefing_check (snd (should_run_briefing t s)) = strftime_date t"
      by (auto simp: should_run_briefing_def Let_def split: if_splits)
    moreover have "\<forall>u \<in> set ts. date_of t \<le> date_of u"
      using Cons.prems by auto
    moreover have "sorted (map date_of ts)"
      using Cons.prems by simp
    ultimately have "fired_on (date_of t) ts (snd (should_run_briefing t s)) = 0"
      by (simp add: fired_on_marked)
    with True show ?thesis by (simp add: fired_on_Cons)
  next
    case False
    moreover have "fired_on d ts (snd (should_run_briefing t s)) \<le> 1"
      using Cons by simp
    ultimately show ?thesis by (auto simp: fired_on_Cons)
  qed
qed

lemmas briefing_eval = should_run_briefing_def weekday_def toordinal_def days_before_year_def
  days_before_month_def is_leap_def strftime_date_def zfill_def BRIEFING_DAY_def BRIEFING_HOUR_def

theorem briefing_once_per_date_witness:
  "sorted (map date_of [sunday_23 0, sunday_23 1, sunday_23 2])
   \<and> briefing_calls [sunday_23 0, sunday_23 1, sunday_23 2] orch0 = [True, False, False]
   \<and> fired_on (2026, 11, 1) [sunday_23 0, sunday_23 1, sunday_23 2] orch0 \<le> 1"
proof -
  have s: "sorted (map date_of [sunday_23 0, sunday_23 1, sunday_23 2])"
    by (simp add: date_of_def sunday_23_def)
  have c: "briefing_calls [sunday_23 0, sunday_23 1, sunday_23 2] orch0 = [True, False, False]"
    by (simp add: briefing_eval sunday_23_def orch0_def)
  from s c briefing_once_per_date [OF s, of "(2026, 11, 1)" orch0] show ?thesis by simp
qed

text \<open>
  C7 (the claim at a clock that is set back). The readings are Sunday 8 November 2026,
  Sunday 1 November and again Sunday 8 November, all at 23 h: the guard remembers only the
  last date on which it fired, so the predicate returns true twice on 8 November.
\<close>

theorem briefing_twice_on_one_date:
  "briefing_calls [(sunday_23 0)\<lparr>day := 8\<rparr>, sunday_23 0, (sunday_23 0)\<lparr>day := 8\<rparr>] orch0
     = [True, True, True]
   \<and> fired_on (2026, 11, 8)
        [(sunday_23 0)\<lparr>day := 8\<rparr>, sunday_23 0, (sunday_23 0)\<lparr>day := 8\<rparr>] orch0 = 2"
  by (simp add: fired_on_def date_of_def briefing_eval sunday_23_def orch0_def)

lemma scan_vault0: "scan_folder vault0 needs_action = {[''Needs_Action'', ''a.md'']}"
  by (simp add: vault0_def scan_folder_def exists_path_def rglob_md_def needs_action_def
      endswith_def suffix_def)

theorem detect_new_once_witness:
  "[''Needs_Action'', ''a.md''] \<in> detect_calls [vault0, vault0, vault0] orch0 ! 0
   \<and> [''Needs_Action'', ''a.md''] \<notin> detect_calls [vault0, vault0, vault0] orch0 ! 1
   \<and> [''Needs_Action'', ''a.md''] \<notin> detect_calls [vault0, vault0, vault0] orch0 ! 2"
proof -
  let ?f = "[''Needs_Action'', ''a.md'']" and ?ws = "[vault0, vault0, vault0]"
  have a: "(0::nat) < length ?ws" by simp
  have b: "?f \<in> scan_folder (?ws ! 0) needs_action" by (simp add: scan_vault0)
  have c: "?f \<notin> known_before ?ws orch0 0" by (simp add: known_before_def orch0_def)
  have d: "\<forall>k. (0::nat) < k \<and> k \<le> 2 \<longrightarrow> ?f \<in> scan_folder (?ws ! k) needs_action"
    by (auto simp: scan_vault0 nth_Cons split: nat.splits)
  from detect_new_once [OF a b c] have
    e: "?f \<in> detect_calls ?ws orch0 ! 0" and
    g: "\<And>j. 0 < j \<Longrightarrow> j < length ?ws \<Longrightarrow>
          (\<forall>k. 0 < k \<and> k \<le> j \<longrightarrow> ?f \<in> scan_folder (?ws ! k) needs_action) \<Longrightarrow>
          ?f \<notin> detect_calls ?ws orch0 ! j"
    by blast+
  have "?f \<notin> detect_calls ?ws orch0 ! 1"
    by (rule g) (auto simp: scan_vault0)
  moreover have "?f \<notin> detect_calls ?ws orch0 ! 2"
    by (rule g) (use d in auto)
  ultimately show ?thesis using e by simp
qed

lemma space_chars_nonempty: "q \<in> set space_chars \<Longrightarrow> q \<noteq> []"
  by (auto simp: space_chars_def)

lemma plain_not_space:
  "32 < (of_char c :: nat) \<Longrightarrow> (of_char c :: nat) < 127 \<Longrightarrow> q \<in> set space_chars \<Longrightarrow> c \<notin> set q"
  by (auto simp: space_chars_def)

lemma space_width_pos:
  "space_width s \<noteq> 0 \<Longrightarrow> \<exists>q \<in> set space_chars. prefix q s \<and> space_width s = length q"
proof -
  assume a: "space_width s \<noteq> 0"
  then obtain q qs where f: "filter (\<lambda>q. prefix q s) space_chars = q # qs"
    unfolding space_width_def by (cases "filter (\<lambda>q. prefix q s) space_chars") auto
  then have "q \<in> set (filter (\<lambda>q. prefix q s) space_chars)" by simp
  then have "q \<in> set space_chars" "prefix q s" by simp_all
  moreover have "space_width s = length q" unfolding space_width_def by (simp add: f)
  ultimately show ?thesis by blast
qed

lemma space_width_end_pos:
  "space_width_end s \<noteq> 0 \<Longrightarrow> \<exists>q \<in> set space_chars. suffix q s \<and> space_width_end s = length q"
proof -
  assume a: "space_width_end s \<noteq> 0"
  then obtain q qs where f: "filter (\<lambda>q. suffix q s) space_chars = q # qs"
    unfolding space_width_end_def by (cases "filter (\<lambda>q. suffix q s) space_chars") auto
  then have "q \<in> set (filter (\<lambda>q. suffix q s) space_chars)" by simp
  then have "q \<in> set space_chars" "suffix q s" by simp_all
  moreover have "space_width_end s = length q" unfolding space_width_end_def by (simp add: f)
  ultimately show ?thesis by blast
qed

lemma lstrip_plain:
  assumes "32 < (of_char c :: nat)" "(of_char c :: nat) < 127"
  shows "lstrip (c # cs) = c # cs"
proof -
  have "space_width (c # cs) = 0"
  proof (rule ccontr)
    assume "space_width (c # cs) \<noteq> 0"
    then obtain q where q: "q \<in> set space_chars" "prefix q (c # cs)"
      using space_width_pos by blast
    then have "q \<noteq> []" using space_chars_nonempty by blast
    with q(2) have "c \<in> set q" by (cases q) auto
    with plain_not_space [OF assms q(1)] show False by simp
  qed
  then show ?thesis by (simp add: lstrip.simps)
qed



lemma rstrip_plain_end:
  assumes "32 < (of_char c :: nat)" "(of_char c :: nat) < 127"
  shows "rstrip (xs @ [c]) = xs @ [c]"
proof -
  have "space_width_end (xs @ [c]) = 0"
  proof (rule ccontr)
    assume "space_width_end (xs @ [c]) \<noteq> 0"
    then obtain q where q: "q \<in> set space_chars" "suffix q (xs @ [c])"
      using space_width_end_pos by blast
    then have "q \<noteq> []" using space_chars_nonempty by blast
    with q(2) have "last q = c" by (metis last_appendR last_snoc suffix_def)
    with \<open>q \<noteq> []\<close> have "c \<in> set q" using last_in_set by blast
    with plain_not_space [OF assms q(1)] show False by simp
  qed
  then show ?thesis by (simp add: rstrip.simps)
qed

lemma strip_plain:
  assumes "32 < (of_char c :: nat)" "(of_char c :: nat) < 127"
    and "32 < (of_char d :: nat)" "(of_char d :: nat) < 127"
  shows "strip (c # xs @ [d]) = c # xs @ [d]" and "strip [c] = [c]"
proof -
  show "strip (c # xs @ [d]) = c # xs @ [d]"
    using lstrip_plain [OF assms(1,2)] rstrip_plain_end [OF assms(3,4), of "c # xs"]
    by (simp add: strip_def)
  show "strip [c] = [c]"
    using lstrip_plain [OF assms(1,2)] rstrip_plain_end [OF assms(1,2), of "[]"]
    by (simp add: strip_def)
qed

lemma lstrip_blank: "lstrip (CHR 0x20 # s) = lstrip s"
  by (subst lstrip.simps) (simp add: space_width_def space_chars_def)

lemma split1_type:
  "startswith line ''type:'' \<Longrightarrow> item (split1 CHR '':'' line) (Suc 0) = Inr (drop 5 line)"
  by (auto simp: startswith_def prefix_def split1_def item_def)

lemma type_of_lines_none:
  "\<forall>l \<in> set ls. \<not> startswith (strip l) ''type:'' \<Longrightarrow> type_of_lines ls = Inr ''unknown''"
  by (induction ls) (auto simp: Let_def)

lemma type_of_lines_first:
  "\<forall>x \<in> set pre. \<not> startswith (strip x) ''type:'' \<Longrightarrow> startswith (strip l) ''type:'' \<Longrightarrow>
   type_of_lines (pre @ l # post) = Inr (strip (drop 5 (strip l)))"
proof (induction pre)
  case Nil
  then show ?case by (simp add: Let_def split1_type)
next
  case (Cons x pre)
  have "\<not> (strip x = ''---'' \<and> \<not> startswith (strip x) ''---'')"
    by (auto simp: startswith_def)
  with Cons show ?case by (auto simp: Let_def)
qed

lemma type_of_lines_total: "\<exists>v. type_of_lines ls = Inr v"
proof (induction ls)
  case Nil
  then show ?case by simp
next
  case (Cons l ls)
  then show ?case by (auto simp: Let_def split1_type)
qed

text \<open>
  C10. Item type detection never raises: for every vault and path it returns a string.
  When the file cannot be read, or no line of it starts (once stripped) with
  \<^verbatim>\<open>type:\<close>, the string is \<^verbatim>\<open>unknown\<close>. When the file is readable and has such a
  line, the result is the text that follows \<^verbatim>\<open>type:\<close> on the first such line, with
  the surrounding white space stripped.
\<close>

theorem detect_item_type_total:
  "(\<exists>v. detect_item_type w p = Inr v)
   \<and> (\<forall>e. read_text w p = Inl e \<longrightarrow> detect_item_type w p = Inr ''unknown'')
   \<and> (\<forall>body. read_text w p = Inr body
          \<and> (\<forall>l \<in> set (split CHR 0x0A body). \<not> startswith (strip l) ''type:'')
        \<longrightarrow> detect_item_type w p = Inr ''unknown'')
   \<and> (\<forall>body pre l post. read_text w p = Inr body
          \<and> split CHR 0x0A body = pre @ l # post
          \<and> (\<forall>x \<in> set pre. \<not> startswith (strip x) ''type:'')
          \<and> startswith (strip l) ''type:''
        \<longrightarrow> detect_item_type w p = Inr (strip (drop 5 (strip l))))"
proof (intro conjI allI impI)
  show "\<exists>v. detect_item_type w p = Inr v"
    by (simp add: detect_item_type_def split: sum.splits)
next
  fix e assume "read_text w p = Inl e"
  then show "detect_item_type w p = Inr ''unknown''"
    by (simp add: detect_item_type_def)
next
  fix body
  assume "read_text w p = Inr body
          \<and> (\<forall>l \<in> set (split CHR 0x0A body). \<not> startswith (strip l) ''type:'')"
  then show "detect_item_type w p = Inr ''unknown''"
    by (simp add: detect_item_type_def type_of_lines_none)
next
  fix body pre l post
  assume "read_text w p = Inr body
          \<and> split CHR 0x0A body = pre @ l # post
          \<and> (\<forall>x \<in> set pre. \<not> startswith (strip x) ''type:'')
          \<and> startswith (strip l) ''type:''"
  then show "detect_item_type w p = Inr (strip (drop 5 (strip l)))"
    by (simp add: detect_item_type_def type_of_lines_first)
qed

theorem detect_item_type_total_witness:
  "detect_item_type vault0 [''Needs_Action'', ''a.md''] = Inr ''email''
   \<and> detect_item_type vault0 [''Needs_Action'', ''missing.md''] = Inr ''unknown''"
proof -
  let ?p = "[''Needs_Action'', ''a.md'']" and ?q = "[''Needs_Action'', ''missing.md'']"
  let ?body = "''---'' @ [CHR 0x0A] @ ''type: email'' @ [CHR 0x0A] @ ''---''"
  have rd: "read_text vault0 ?p = Inr ?body"
    by (simp add: read_text_def vault0_def)
  have sp: "split CHR 0x0A ?body = [''---''] @ ''type: email'' # [''---'']"
    by simp
  have s1: "strip ''---'' = ''---''"
    using strip_plain(1) [of "CHR ''-''" "CHR ''-''" "''-''"] by simp
  have s2: "strip ''type: email'' = ''type: email''"
    using strip_plain(1) [of "CHR ''t''" "CHR ''l''" "''ype: emai''"] by simp
  have s3: "strip '' email'' = ''email''"
    using strip_plain(1) [of "CHR ''e''" "CHR ''l''" "''mai''"]
    by (simp add: strip_def lstrip_blank)
  have pre: "\<forall>x \<in> set [''---'']. \<not> startswith (strip x) ''type:''"
    by (simp add: s1 startswith_def)
  have hit: "startswith (strip ''type: email'') ''type:''"
    by (simp add: s2 startswith_def)
  have val: "strip (drop 5 (strip ''type: email'')) = ''email''"
    by (simp add: s2 s3)
  have miss: "read_text vault0 ?q = Inl FileNotFoundError"
    by (simp add: read_text_def vault0_def)
  from detect_item_type_total [of vault0 ?p] rd sp pre hit
  have "detect_item_type vault0 ?p = Inr (strip (drop 5 (strip ''type: email'')))"
    by blast
  moreover from detect_item_type_total [of vault0 ?q] miss
  have "detect_item_type vault0 ?q = Inr ''unknown''"
    by blast
  ultimately show ?thesis by (simp only: val)
qed

lemma write_text_frame:
  "write_text p c w = (r, w') \<Longrightarrow>
   spawned w' = spawned w \<and> denies w' = denies w \<and> agent w' = agent w
   \<and> ticks w' = ticks w
   \<and> (journal w' = journal w \<or> journal w' = journal w @ [Write p c])"
  by (auto simp: write_text_def split: option.splits)

lemma append_text_frame:
  "append_text p c w = (r, w') \<Longrightarrow>
   spawned w' = spawned w \<and> denies w' = denies w \<and> agent w' = agent w
   \<and> ticks w' = ticks w
   \<and> (journal w' = journal w \<or> journal w' = journal w @ [Append p c])"
  by (auto simp: append_text_def split: option.splits)

lemma log_event_frame:
  assumes "log_event ev details w = (r, w')"
  shows "spawned w' = spawned w \<and> denies w' = denies w \<and> agent w' = agent w
       \<and> ops_under needs_action (journal w') = ops_under needs_action (journal w)"
  using assms unfolding log_event_def datetime_now_def Let_def
  by (auto simp: ops_under_def write_text_def append_text_def needs_action_def logs_dir_def
      split: if_splits option.splits)

lemma subprocess_run_frame:
  "subprocess_run prompt w = (r, w') \<Longrightarrow>
   spawned w' = spawned w + 1 \<and> denies w' = denies w \<and> agent w' = agent w
   \<and> journal w' = journal w"
  by (auto simp: subprocess_run_def split: prod.splits)


lemma run_skill_try_frame:
  assumes "run_skill_try name prompt s w = (r, s1, w1)"
  shows "spawned w1 = spawned w + 1 \<and> denies w1 = denies w \<and> agent w1 = agent w
       \<and> ops_under needs_action (journal w1) = ops_under needs_action (journal w)
       \<and> total_errors s1 = total_errors s \<and> dry_run s1 = dry_run s"
  using assms unfolding run_skill_try_def Let_def
  by (auto split: prod.splits sum.splits if_splits
      dest!: subprocess_run_frame log_event_frame)

lemma run_skill_live:
  assumes "\<not> dry_run s" and "run_skill name ctx s w = (r, s1, w1)"
  shows "spawned w1 = spawned w + 1 \<and> denies w1 = denies w \<and> agent w1 = agent w
       \<and> ops_under needs_action (journal w1) = ops_under needs_action (journal w)
       \<and> total_errors s1 = total_errors s \<and> dry_run s1 = dry_run s"
proof -
  obtain r0 s0 w0 where t: "run_skill_try name (build_prompt s name ctx) s w = (r0, s0, w0)"
    by (cases "run_skill_try name (build_prompt s name ctx) s w") auto
  note f = run_skill_try_frame [OF t]
  from assms t f show ?thesis
    unfolding run_skill_def Let_def
    by (auto split: prod.splits sum.splits if_splits dest!: log_event_frame)
qed

lemma run_skill_dry:
  assumes "dry_run s" and "run_skill name ctx s w = (r, s1, w1)"
  shows "r \<noteq> Inr False"
  using assms unfolding run_skill_def Let_def
  by (auto split: prod.splits sum.splits)

lemma log_event_ok:
  "\<forall>p. denies w p = None \<Longrightarrow> fst (log_event ev details w) = Inr ()"
  unfolding log_event_def datetime_now_def Let_def
  by (simp add: write_text_def append_text_def)

lemma log_event_ok_ex:
  assumes "\<forall>p. denies w p = None"
  shows "\<exists>w2. log_event ev details w = (Inr (), w2)"
proof -
  have "fst (log_event ev details w) = Inr ()"
    using assms by (rule log_event_ok)
  then have "log_event ev details w = (Inr (), snd (log_event ev details w))"
    by (cases "log_event ev details w") simp
  then show ?thesis ..
qed

lemma run_skill_try_reports:
  assumes "\<forall>p. denies w p = None"
  shows "fst (run_skill_try name prompt s w) =
           (case fst (agent w (spawned w) prompt (files w)) of
              Inr r \<Rightarrow> Inr (returncode r = 0)
            | Inl e \<Rightarrow> Inl e)"
proof -
  obtain r fs where a: "agent w (spawned w) prompt (files w) = (r, fs)"
    by (cases "agent w (spawned w) prompt (files w)") auto
  let ?w1 = "w\<lparr>files := fs, spawned := spawned w + 1\<rparr>"
  have sp: "subprocess_run prompt w = (r, ?w1)"
    by (simp add: subprocess_run_def a)
  have d: "\<forall>p. denies ?w1 p = None" using assms by simp
  show ?thesis
  proof (cases r)
    case (Inl e)
    with sp a show ?thesis by (simp add: run_skill_try_def)
  next
    case (Inr res)
    show ?thesis
    proof (cases "returncode res = 0")
      case True
      from log_event_ok_ex [OF d] obtain w2 where
        "log_event ''skill_success'' [(''skill_name'', name)] ?w1 = (Inr (), w2)" by blast
      with sp a Inr True show ?thesis by (simp add: run_skill_try_def Let_def)
    next
      case False
      from log_event_ok_ex [OF d] obtain w2 where
        "log_event ''skill_failed'' [(''skill_name'', name), (''error'', take_chars 200 (stderr res))] ?w1
           = (Inr (), w2)" by blast
      with sp a Inr False show ?thesis by (simp add: run_skill_try_def Let_def)
    qed
  qed
qed

lemma run_skill_reports:
  assumes "\<not> dry_run s" and "\<forall>p. denies w p = None"
  shows "fst (run_skill name ctx s w) =
           (case fst (agent w (spawned w) (build_prompt s name ctx) (files w)) of
              Inr r \<Rightarrow> Inr (returncode r = 0)
            | Inl e \<Rightarrow> if e = TimeoutExpired \<or> e = FileNotFoundError then Inr False else Inl e)"
proof -
  let ?t = "run_skill_try name (build_prompt s name ctx) s w"
  obtain r s1 w1 where t: "?t = (r, s1, w1)"
    by (cases ?t) auto
  have d: "\<forall>p. denies w1 p = None"
    using run_skill_try_frame [OF t] assms(2) by simp
  have fr: "r = (case fst (agent w (spawned w) (build_prompt s name ctx) (files w)) of
              Inr r \<Rightarrow> Inr (returncode r = 0)
            | Inl e \<Rightarrow> Inl e)"
    using run_skill_try_reports [OF assms(2), of name "build_prompt s name ctx" s] t by simp
  show ?thesis
  proof (cases r)
    case (Inr b)
    with t fr assms(1) show ?thesis
      by (auto simp: run_skill_def Let_def split: sum.splits)
  next
    case (Inl e)
    from log_event_ok_ex [OF d] obtain w2 where
      l1: "log_event ''skill_timeout'' [(''skill_name'', name)] w1 = (Inr (), w2)" by blast
    from log_event_ok_ex [OF d] obtain w3 where
      l2: "log_event ''skill_error'' [(''skill_name'', name), (''error'', ''claude CLI not found'')] w1
             = (Inr (), w3)" by blast
    from Inl t fr assms(1) l1 l2 show ?thesis
      by (auto simp: run_skill_def Let_def split: sum.splits)
  qed
qed

lemma create_alert_ok:
  assumes "accepts_writes w needs_action"
  shows "\<exists>alert content w1.
           create_alert name w = (Inr (), w1)
         \<and> spawned w1 = spawned w
         \<and> journal w1 = journal w @ [Write alert content]
         \<and> prefix needs_action alert
         \<and> startswith (last alert) ''ALERT_skill_failure_''
         \<and> map_of (files w1) alert = Some content"
  using assms unfolding create_alert_def datetime_now_def Let_def accepts_writes_def
  by (auto simp: write_text_def needs_action_def startswith_def update_conv' split: option.splits)


text \<open>
  C1. Dispatch with one retry, for every skill name and context. If the first invocation
  of \<^verbatim>\<open>_run_skill\<close> reports failure and the second, made after the delay, reports
  success, the dispatch reports success, the agent has been started exactly twice, the
  error counter is unchanged and the program has written nothing below the inbox. If
  both invocations report failure and the inbox accepts writes, the dispatch reports
  failure, the agent has been started exactly twice, the error counter has grown by one,
  and the program has written exactly one file below the inbox, the alert.
\<close>

theorem run_skill_with_retry_policy:
  "(run_skill name ctx s w = (Inr False, s1, w1)
      \<and> run_skill name ctx s1 (sleep 5 w1) = (Inr True, s2, w2)
    \<longrightarrow> run_skill_with_retry name ctx s w = (Inr True, s2, w2)
        \<and> spawned w2 = spawned w + 2
        \<and> total_errors s2 = total_errors s
        \<and> ops_under needs_action (journal w2) = ops_under needs_action (journal w))
   \<and> (run_skill name ctx s w = (Inr False, s1, w1)
      \<and> run_skill name ctx s1 (sleep 5 w1) = (Inr False, s2, w2)
      \<and> accepts_writes w needs_action
    \<longrightarrow> (\<exists>s3 w3 alert content.
          run_skill_with_retry name ctx s w = (Inr False, s3, w3)
        \<and> spawned w3 = spawned w + 2
        \<and> total_errors s3 = total_errors s + 1
        \<and> ops_under needs_action (journal w3)
            = ops_under needs_action (journal w) @ [Write alert content]
        \<and> startswith (last alert) ''ALERT_skill_failure_''
        \<and> map_of (files w3) alert = Some content))"
proof (intro conjI impI)
  assume h: "run_skill name ctx s w = (Inr False, s1, w1)
      \<and> run_skill name ctx s1 (sleep 5 w1) = (Inr True, s2, w2)"
  then have live: "\<not> dry_run s"
    using run_skill_dry [of s name ctx w "Inr False" s1 w1] by auto
  from h have f1: "spawned w1 = spawned w + 1 \<and> denies w1 = denies w \<and> agent w1 = agent w
       \<and> ops_under needs_action (journal w1) = ops_under needs_action (journal w)
       \<and> total_errors s1 = total_errors s \<and> dry_run s1 = dry_run s"
    using run_skill_live [OF live] by blast
  with live have live1: "\<not> dry_run s1" by simp
  from h have f2: "spawned w2 = spawned (sleep 5 w1) + 1 \<and> denies w2 = denies (sleep 5 w1)
       \<and> agent w2 = agent (sleep 5 w1)
       \<and> ops_under needs_action (journal w2) = ops_under needs_action (journal (sleep 5 w1))
       \<and> total_errors s2 = total_errors s1 \<and> dry_run s2 = dry_run s1"
    using run_skill_live [OF live1] by blast
  from h show "run_skill_with_retry name ctx s w = (Inr True, s2, w2)"
    by (simp add: run_skill_with_retry_def)
  from f1 f2 show "spawned w2 = spawned w + 2" by (simp add: sleep_def)
  from f1 f2 show "total_errors s2 = total_errors s" by simp
  from f1 f2 show "ops_under needs_action (journal w2) = ops_under needs_action (journal w)"
    by (simp add: sleep_def)
next
  assume h: "run_skill name ctx s w = (Inr False, s1, w1)
      \<and> run_skill name ctx s1 (sleep 5 w1) = (Inr False, s2, w2)
      \<and> accepts_writes w needs_action"
  then have live: "\<not> dry_run s"
    using run_skill_dry [of s name ctx w "Inr False" s1 w1] by auto
  from h have f1: "spawned w1 = spawned w + 1 \<and> denies w1 = denies w \<and> agent w1 = agent w
       \<and> ops_under needs_action (journal w1) = ops_under needs_action (journal w)
       \<and> total_errors s1 = total_errors s \<and> dry_run s1 = dry_run s"
    using run_skill_live [OF live] by blast
  with live have live1: "\<not> dry_run s1" by simp
  from h have f2: "spawned w2 = spawned (sleep 5 w1) + 1 \<and> denies w2 = denies (sleep 5 w1)
       \<and> agent w2 = agent (sleep 5 w1)
       \<and> ops_under needs_action (journal w2) = ops_under needs_action (journal (sleep 5 w1))
       \<and> total_errors s2 = total_errors s1 \<and> dry_run s2 = dry_run s1"
    using run_skill_live [OF live1] by blast
  obtain t w3 where n: "datetime_now w2 = (t, w3)"
    by (cases "datetime_now w2") auto
  then have f3: "spawned w3 = spawned w2 \<and> denies w3 = denies w2 \<and> journal w3 = journal w2"
    by (auto simp: datetime_now_def)
  with f1 f2 h have "accepts_writes w3 needs_action"
    by (simp add: accepts_writes_def sleep_def)
  from create_alert_ok [OF this, of name] obtain alert content w4 where
    a: "create_alert name w3 = (Inr (), w4)" "spawned w4 = spawned w3"
       "journal w4 = journal w3 @ [Write alert content]" "prefix needs_action alert"
       "startswith (last alert) ''ALERT_skill_failure_''"
       "map_of (files w4) alert = Some content"
    by blast
  let ?s3 = "s2\<lparr>total_errors := total_errors s2 + 1,
                 last_error := Some (name, isoformat t, take_chars 100 ctx)\<rparr>"
  from h n a have "run_skill_with_retry name ctx s w = (Inr False, ?s3, w4)"
    by (simp add: run_skill_with_retry_def Let_def)
  moreover from f1 f2 f3 a have "spawned w4 = spawned w + 2"
    by (simp add: sleep_def)
  moreover from f1 f2 have "total_errors ?s3 = total_errors s + 1" by simp
  moreover from f1 f2 f3 a have "ops_under needs_action (journal w4)
            = ops_under needs_action (journal w) @ [Write alert content]"
    by (simp add: sleep_def ops_under_def)
  ultimately show "\<exists>s3 w3 alert content.
          run_skill_with_retry name ctx s w = (Inr False, s3, w3)
        \<and> spawned w3 = spawned w + 2
        \<and> total_errors s3 = total_errors s + 1
        \<and> ops_under needs_action (journal w3)
            = ops_under needs_action (journal w) @ [Write alert content]
        \<and> startswith (last alert) ''ALERT_skill_failure_''
        \<and> map_of (files w3) alert = Some content"
    using a by blast
qed

theorem run_skill_with_retry_policy_witness:
  "fst (run_skill_with_retry ''update_dashboard'' [] orch0 vault1) = Inr True
   \<and> spawned (snd (snd (run_skill_with_retry ''update_dashboard'' [] orch0 vault1))) = 2
   \<and> total_errors (fst (snd (run_skill_with_retry ''update_dashboard'' [] orch0 vault1))) = 0
   \<and> fst (run_skill_with_retry ''update_dashboard'' [] orch0 vault0) = Inr False
   \<and> spawned (snd (snd (run_skill_with_retry ''update_dashboard'' [] orch0 vault0))) = 2
   \<and> total_errors (fst (snd (run_skill_with_retry ''update_dashboard'' [] orch0 vault0))) = 1"
proof -
  let ?n = "''update_dashboard''"
  have live: "\<not> dry_run orch0" by (simp add: orch0_def)
  have e0: "total_errors orch0 = 0" by (simp add: orch0_def)
  have part1: "fst (run_skill_with_retry ?n [] orch0 vault1) = Inr True
   \<and> spawned (snd (snd (run_skill_with_retry ?n [] orch0 vault1))) = 2
   \<and> total_errors (fst (snd (run_skill_with_retry ?n [] orch0 vault1))) = 0"
  proof -
    have open1: "\<forall>p. denies vault1 p = None" by (simp add: vault1_def vault0_def)
    have sp0: "spawned vault1 = 0" by (simp add: vault1_def vault0_def)
    have ag0: "\<And>p fs. fst (agent vault1 0 p fs) = Inl TimeoutExpired"
      by (simp add: vault1_def vault0_def)
    have ag1: "\<And>p fs. fst (agent vault1 (Suc 0) p fs)
                 = Inr \<lparr>returncode = 0, stdout = ''done'', stderr = []\<rparr>"
      by (simp add: vault1_def vault0_def)
    obtain r1 s1 w1 where r1: "run_skill ?n [] orch0 vault1 = (r1, s1, w1)"
      by (cases "run_skill ?n [] orch0 vault1") auto
    have "r1 = Inr False"
      using run_skill_reports [OF live open1, of ?n "[]"] r1 by (simp add: sp0 ag0)
    with r1 have r1': "run_skill ?n [] orch0 vault1 = (Inr False, s1, w1)" by simp
    from run_skill_live [OF live r1'] have
      f1: "spawned w1 = Suc 0" "denies w1 = denies vault1" "agent w1 = agent vault1"
          "\<not> dry_run s1"
      using live by (simp_all add: sp0)
    have open2: "\<forall>p. denies (sleep 5 w1) p = None" using f1 open1 by (simp add: sleep_def)
    obtain r2 s2 w2 where r2: "run_skill ?n [] s1 (sleep 5 w1) = (r2, s2, w2)"
      by (cases "run_skill ?n [] s1 (sleep 5 w1)") auto
    have "r2 = Inr True"
      using run_skill_reports [OF f1(4) open2, of ?n "[]"] r2 f1
      by (simp add: sleep_def ag1)
    with r2 have r2': "run_skill ?n [] s1 (sleep 5 w1) = (Inr True, s2, w2)" by simp
    from run_skill_with_retry_policy [of ?n "[]" orch0 vault1 s1 w1 s2 w2] r1' r2'
    have "run_skill_with_retry ?n [] orch0 vault1 = (Inr True, s2, w2)
        \<and> spawned w2 = spawned vault1 + 2
        \<and> total_errors s2 = total_errors orch0"
      by blast
    then show ?thesis by (simp add: sp0 e0)
  qed
  have part2: "fst (run_skill_with_retry ?n [] orch0 vault0) = Inr False
   \<and> spawned (snd (snd (run_skill_with_retry ?n [] orch0 vault0))) = 2
   \<and> total_errors (fst (snd (run_skill_with_retry ?n [] orch0 vault0))) = 1"
  proof -
    have open1: "\<forall>p. denies vault0 p = None" by (simp add: vault0_def)
    have sp0: "spawned vault0 = 0" by (simp add: vault0_def)
    have ag0: "\<And>k p fs. fst (agent vault0 k p fs) = Inl TimeoutExpired"
      by (simp add: vault0_def)
    obtain r1 s1 w1 where r1: "run_skill ?n [] orch0 vault0 = (r1, s1, w1)"
      by (cases "run_skill ?n [] orch0 vault0") auto
    have "r1 = Inr False"
      using run_skill_reports [OF live open1, of ?n "[]"] r1 by (simp add: ag0)
    with r1 have r1': "run_skill ?n [] orch0 vault0 = (Inr False, s1, w1)" by simp
    from run_skill_live [OF live r1'] have
      f1: "spawned w1 = Suc 0" "denies w1 = denies vault0" "agent w1 = agent vault0"
          "\<not> dry_run s1"
      using live by (simp_all add: sp0)
    have open2: "\<forall>p. denies (sleep 5 w1) p = None" using f1 open1 by (simp add: sleep_def)
    obtain r2 s2 w2 where r2: "run_skill ?n [] s1 (sleep 5 w1) = (r2, s2, w2)"
      by (cases "run_skill ?n [] s1 (sleep 5 w1)") auto
    have "r2 = Inr False"
      using run_skill_reports [OF f1(4) open2, of ?n "[]"] r2 f1
      by (simp add: sleep_def ag0)
    with r2 have r2': "run_skill ?n [] s1 (sleep 5 w1) = (Inr False, s2, w2)" by simp
    have acc: "accepts_writes vault0 needs_action"
      by (simp add: accepts_writes_def open1)
    from run_skill_with_retry_policy [of ?n "[]" orch0 vault0 s1 w1 s2 w2] r1' r2' acc
    obtain s3 w3 where "run_skill_with_retry ?n [] orch0 vault0 = (Inr False, s3, w3)"
        "spawned w3 = spawned vault0 + 2" "total_errors s3 = total_errors orch0 + 1"
      by blast
    then show ?thesis by (simp add: sp0 e0)
  qed
  from part1 part2 show ?thesis by simp
qed

subsection \<open>The audit log\<close>














subsection \<open>The task runner\<close>


lemma kept_trans: "kept w w1 \<Longrightarrow> kept w1 w2 \<Longrightarrow> kept w w2"
  by (simp add: kept_def)


lemma ops_under_append: "ops_under d (evs @ evs') = ops_under d evs @ ops_under d evs'"
  by (simp add: ops_under_def)

lemma write_text_ok:
  assumes "denies w p = None"
  shows "\<exists>w'. write_text p c w = (Inr (), w') \<and> kept w w' \<and> spawned w' = spawned w
           \<and> ticks w' = ticks w \<and> dirs w' = dirs w
           \<and> journal w' = journal w @ [Write p c]
           \<and> map_of (files w') p = Some c
           \<and> (\<forall>q. q \<noteq> p \<longrightarrow> map_of (files w') q = map_of (files w) q)"
  using assms by (simp add: write_text_def kept_def update_conv')


lemma datetime_now_kept:
  "datetime_now w = (t, w') \<Longrightarrow>
   kept w w' \<and> spawned w' = spawned w \<and> journal w' = journal w \<and> files w' = files w
   \<and> dirs w' = dirs w \<and> t = clock w (ticks w)"
  by (auto simp: datetime_now_def kept_def)




lemma in_progress_not_inbox: "\<not> prefix needs_action (in_progress_dir @ [x])"
  by (simp add: needs_action_def in_progress_dir_def)

lemma done_not_inbox: "\<not> prefix needs_action (done_dir @ [x])"
  by (simp add: needs_action_def done_dir_def)



lemma in_progress_not_done: "in_progress_dir @ [x] \<noteq> done_dir @ [y]"
  by (simp add: in_progress_dir_def done_dir_def)






lemma unlink_missing_ok_ok:
  assumes "denies w p = None"
  shows "\<exists>w'. unlink_missing_ok p w = (Inr (), w') \<and> kept w w' \<and> spawned w' = spawned w
           \<and> ticks w' = ticks w
           \<and> (journal w' = journal w \<or> journal w' = journal w @ [Unlink p])
           \<and> map_of (files w') p = None
           \<and> (\<forall>q. q \<noteq> p \<longrightarrow> map_of (files w') q = map_of (files w) q)"
  using assms by (auto simp: unlink_missing_ok_def kept_def delete_conv')

lemma update_task_file_moves:
  assumes "task_file r = in_progress_dir @ [task_filename r]"
    and "denies w (in_progress_dir @ [task_filename r]) = None"
    and "denies w (done_dir @ [task_filename r]) = None"
  shows "\<exists>w'. update_task_file i s ''completed'' r w
             = (Inr (), r\<lparr>task_file := done_dir @ [task_filename r]\<rparr>, w')
           \<and> kept w w' \<and> spawned w' = spawned w
           \<and> ops_under needs_action (journal w') = ops_under needs_action (journal w)
           \<and> map_of (files w') (done_dir @ [task_filename r])
                = Some (task_content r i ''completed'' (clock w (ticks w)))
           \<and> map_of (files w') (in_progress_dir @ [task_filename r]) = None
           \<and> (\<forall>q. q \<noteq> in_progress_dir @ [task_filename r] \<and> q \<noteq> done_dir @ [task_filename r]
                  \<longrightarrow> map_of (files w') q = map_of (files w) q)"
proof -
  define src where "src = in_progress_dir @ [task_filename r]"
  define dst where "dst = done_dir @ [task_filename r]"
  obtain t w1 where a: "datetime_now w = (t, w1)" by (cases "datetime_now w") auto
  note ka = datetime_now_kept [OF a]
  have d1: "denies w1 src = None" using assms(2) ka by (simp add: kept_def src_def)
  from unlink_missing_ok_ok [OF d1] obtain w2 where
    w2: "unlink_missing_ok src w1 = (Inr (), w2)" "kept w1 w2" "spawned w2 = spawned w1"
        "journal w2 = journal w1 \<or> journal w2 = journal w1 @ [Unlink src]"
        "map_of (files w2) src = None"
        "\<forall>q. q \<noteq> src \<longrightarrow> map_of (files w2) q = map_of (files w1) q"
    by blast
  have d2: "denies w2 dst = None" using assms(3) ka w2(2) by (simp add: kept_def dst_def)
  define c where "c = task_content r i ''completed'' t"
  from write_text_ok [OF d2, of c] obtain w' where
    w': "write_text dst c w2 = (Inr (), w')" "kept w2 w'" "spawned w' = spawned w2"
        "journal w' = journal w2 @ [Write dst c]"
        "map_of (files w') dst = Some c"
        "\<forall>q. q \<noteq> dst \<longrightarrow> map_of (files w') q = map_of (files w2) q"
    by blast
  have bl: "butlast (task_file r) = in_progress_dir" using assms(1) by simp
  have e: "update_task_file i s ''completed'' r w = (Inr (), r\<lparr>task_file := dst\<rparr>, w')"
    using a bl w2(1) w'(1) assms(1)
    unfolding update_task_file_def Let_def c_def src_def dst_def by simp
  have kk: "kept w w'" using ka w2(2) w'(2) kept_trans by blast
  have sp: "spawned w' = spawned w" using w'(3) w2(3) ka by simp
  have ns: "\<not> prefix needs_action src" unfolding src_def by (rule in_progress_not_inbox)
  have nd: "\<not> prefix needs_action dst" unfolding dst_def by (rule done_not_inbox)
  have o: "ops_under needs_action (journal w') = ops_under needs_action (journal w)"
    using w'(4) w2(4) ka ns nd by (auto simp: ops_under_def)
  have t: "t = clock w (ticks w)" using ka by simp
  have m: "map_of (files w') dst = Some (task_content r i ''completed'' (clock w (ticks w)))"
    using w'(5) t by (simp add: c_def)
  have sd: "src \<noteq> dst" unfolding src_def dst_def by (rule in_progress_not_done)
  have n: "map_of (files w') src = None" using w'(6) w2(5) sd by simp
  have f: "\<forall>q. q \<noteq> src \<and> q \<noteq> dst \<longrightarrow> map_of (files w') q = map_of (files w) q"
    using w'(6) w2(6) ka by simp
  from e kk sp o m n f show ?thesis unfolding src_def dst_def by blast
qed

















end
